theory Spec2Isabelle
  imports Main
begin

section \<open>JavaScript values and dictionaries\<close>

text \<open>
  The reducer stores values of TypeScript type \<open>any\<close> / \<open>unknown\<close>. They are modelled by a
  datatype of JavaScript values. Numbers are integers here (no property below depends on
  fractions or on \<open>NaN\<close>). A function object is known by its name only; the one place
  where such a value can enter the state is a property read that reaches a built-in
  prototype, see \<open>getProp\<close>.
\<close>

datatype jsval =
    JUndefined
  | JNull
  | JBool bool
  | JNum int
  | JStr string
  | JArr "jsval list"
  | JObj "(string \<times> jsval) list"
  | JFunction string

text \<open>JavaScript truthiness, as used by \<open>!!x\<close>, \<open>if (x)\<close>, \<open>x || y\<close> and \<open>x && y\<close>.\<close>

fun truthy :: "jsval \<Rightarrow> bool" where
  "truthy JUndefined = False"
| "truthy JNull = False"
| "truthy (JBool b) = b"
| "truthy (JNum n) = (n \<noteq> 0)"
| "truthy (JStr s) = (s \<noteq> [])"
| "truthy (JArr xs) = True"
| "truthy (JObj ps) = True"
| "truthy (JFunction n) = True"

text \<open>Truthiness of a \<open>Nullable<string>\<close>: absent and the empty string are falsy.\<close>

fun truthy_str :: "string option \<Rightarrow> bool" where
  "truthy_str None = False"
| "truthy_str (Some s) = (s \<noteq> [])"

text \<open>
  A \<open>Dictionary<T>\<close> is a plain object: a list of key/value pairs in insertion order.
  \<open>lookup d k\<close> is \<open>d[k]\<close> (\<open>undefined\<close> for a missing key), \<open>assign d k v\<close> is the object
  spread \<open>{...d, [k]: v}\<close> (an existing key keeps its place and takes the new value, a new
  key is appended), \<open>keys d\<close> is \<open>Object.keys(d)\<close>. JavaScript enumerates keys that look
  like array indices before the others; the reducer only folds over keys in ways that do
  not depend on their order, and that reordering is left out.
\<close>

type_synonym dict = "(string \<times> jsval) list"

definition lookup :: "dict \<Rightarrow> string \<Rightarrow> jsval" where
  "lookup d k = (case map_of d k of None \<Rightarrow> JUndefined | Some v \<Rightarrow> v)"

fun assign :: "dict \<Rightarrow> string \<Rightarrow> jsval \<Rightarrow> dict" where
  "assign [] k v = [(k, v)]"
| "assign ((k', v') # d) k v = (if k' = k then (k, v) # d else (k', v') # assign d k v)"

definition keys :: "dict \<Rightarrow> string list" where
  "keys d = map fst d"

section \<open>Form content (models)\<close>

datatype FieldDataType = TBoolean | TDateTime | TDecimal | TInteger | TString | TStringArray

datatype FieldDataFormat = FEmail | FPhone | FReference | FTime | FUrl

datatype FieldEditorId =
  EDatetime | EDate | EDecimal | EInteger | EListDropdown | EList | EMultiline | EText

text \<open>
  \<open>FieldEditorType\<close> is declared outside the available sources; its members are the
  values of the three lookup tables of \<open>state/fields.ts\<close> plus \<open>multiselect\<close>.
\<close>

datatype FieldEditorType =
    Checkbox | Date | Datetime | Decimal | Email | Integer | Multiline | Multiselect
  | Radio | Reference | Select | Tel | Text | Time | Url

record LabeledValue =
  lv_value :: string
  lv_label :: string

record AllowedValues =
  av_message :: "string option"
  av_values :: "string list option"
  labeledValues :: "LabeledValue list option"

record FieldValidation =
  message :: "string option"

record FieldValidationWithValue =
  vv_message :: "string option"
  vv_value :: jsval

record RegexValidation =
  rx_message :: "string option"
  pattern :: string

record FieldValidations =
  required :: "FieldValidation option"
  v_min :: "FieldValidationWithValue option"
  v_max :: "FieldValidationWithValue option"
  minLength :: "FieldValidationWithValue option"
  maxLength :: "FieldValidationWithValue option"
  minCount :: "FieldValidationWithValue option"
  maxCount :: "FieldValidationWithValue option"
  regex :: "RegexValidation option"
  allowedValue :: "FieldValidationWithValue option"
  allowedValues :: "AllowedValues option"
  pastDateTime :: "FieldValidation option"
  decimalPlaces :: "FieldValidationWithValue option"

datatype FieldLabelPosition = LabelTop | LabelLeftAligned

record FieldEditorProperties =
  autoFill :: "string option"
  rows :: "nat option"
  labelPosition :: "FieldLabelPosition option"
  cssClass :: "string option"
  hidden :: "bool option"
  readOnly :: "bool option"
  placeholderText :: "string option"

record FieldEditor =
  editor_id :: "FieldEditorId option"
  instructions :: "string option"
  editor_label :: "string option"
  editor_properties :: "FieldEditorProperties option"

record Field =
  field_id :: string
  field_name :: string
  dataType :: FieldDataType
  dataFormat :: "FieldDataFormat option"
  field_description :: "string option"
  field_default :: "jsval option"
  groupId :: string
  validations :: "FieldValidations option"
  editor :: "FieldEditor option"

record Group =
  group_id :: string
  group_name :: string

text \<open>
  \<open>FormContentType\<close>. Its \<open>properties\<close> and \<open>version\<close> members are read by none of the
  functions below and are left out, as is the rich-text description of a group.
\<close>

record ContentType =
  form_id :: string
  form_name :: string
  form_description :: string
  form_fields :: "Field list"
  form_groups :: "Group list option"
  form_language :: string

section \<open>Field derivation (state/fields.ts)\<close>

fun DEFAULT_DATA_TYPE_EDITOR_TYPES :: "FieldDataType \<Rightarrow> FieldEditorType" where
  "DEFAULT_DATA_TYPE_EDITOR_TYPES TBoolean = Checkbox"
| "DEFAULT_DATA_TYPE_EDITOR_TYPES TDateTime = Date"
| "DEFAULT_DATA_TYPE_EDITOR_TYPES TDecimal = Decimal"
| "DEFAULT_DATA_TYPE_EDITOR_TYPES TInteger = Integer"
| "DEFAULT_DATA_TYPE_EDITOR_TYPES TString = Text"
| "DEFAULT_DATA_TYPE_EDITOR_TYPES TStringArray = Radio"

fun DEFAULT_DATA_FORMAT_EDITOR_TYPES :: "FieldDataFormat \<Rightarrow> FieldEditorType" where
  "DEFAULT_DATA_FORMAT_EDITOR_TYPES FEmail = Email"
| "DEFAULT_DATA_FORMAT_EDITOR_TYPES FPhone = Tel"
| "DEFAULT_DATA_FORMAT_EDITOR_TYPES FReference = Reference"
| "DEFAULT_DATA_FORMAT_EDITOR_TYPES FTime = Time"
| "DEFAULT_DATA_FORMAT_EDITOR_TYPES FUrl = Url"

fun DEFAULT_EDITOR_ID_EDITOR_TYPES :: "FieldEditorId \<Rightarrow> FieldEditorType" where
  "DEFAULT_EDITOR_ID_EDITOR_TYPES EDate = Date"
| "DEFAULT_EDITOR_ID_EDITOR_TYPES EDatetime = Datetime"
| "DEFAULT_EDITOR_ID_EDITOR_TYPES EDecimal = Decimal"
| "DEFAULT_EDITOR_ID_EDITOR_TYPES EInteger = Integer"
| "DEFAULT_EDITOR_ID_EDITOR_TYPES EList = Radio"
| "DEFAULT_EDITOR_ID_EDITOR_TYPES EListDropdown = Select"
| "DEFAULT_EDITOR_ID_EDITOR_TYPES EMultiline = Multiline"
| "DEFAULT_EDITOR_ID_EDITOR_TYPES EText = Text"

text \<open>\<open>field.validations?.allowedValues\<close>, with both optional links followed.\<close>

definition fieldAllowedValues :: "Field \<Rightarrow> AllowedValues option" where
  "fieldAllowedValues field =
     (case validations field of None \<Rightarrow> None | Some vs \<Rightarrow> allowedValues vs)"

text \<open>
  \<open>getFieldEditorType\<close>: \<open>editorType\<close> is \<open>None\<close> while it is \<open>null\<close>/\<open>undefined\<close>. Every
  editor type is a non-empty string, so \<open>!editorType\<close> holds exactly when it is absent; an
  array, even an empty one, is truthy, so the allowed-values test is a presence test.
\<close>

definition getFieldEditorType :: "Field \<Rightarrow> FieldEditorType" where
  "getFieldEditorType field =
     (let editorType0 =
            (case editor field of
               None \<Rightarrow> None
             | Some e \<Rightarrow>
                 (case editor_id e of
                    None \<Rightarrow> None
                  | Some i \<Rightarrow> Some (DEFAULT_EDITOR_ID_EDITOR_TYPES i)));
          editorType1 =
            (if editorType0 = None \<and> dataFormat field \<noteq> None
             then map_option DEFAULT_DATA_FORMAT_EDITOR_TYPES (dataFormat field)
             else editorType0);
          hasAllowed =
            (case fieldAllowedValues field of
               None \<Rightarrow> False
             | Some av \<Rightarrow> av_values av \<noteq> None \<or> labeledValues av \<noteq> None);
          editorType2 =
            (if editorType1 = None \<and> hasAllowed
             then Some (if dataType field = TStringArray then Multiselect else Radio)
             else editorType1);
          editorType3 =
            (case editorType2 of
               None \<Rightarrow> Some (DEFAULT_DATA_TYPE_EDITOR_TYPES (dataType field))
             | Some t \<Rightarrow> Some t)
      in case editorType3 of None \<Rightarrow> Text | Some t \<Rightarrow> t)"

fun EMPTY_FIELD_VALUES :: "FieldDataType \<Rightarrow> jsval" where
  "EMPTY_FIELD_VALUES TBoolean = JBool False"
| "EMPTY_FIELD_VALUES TDateTime = JNull"
| "EMPTY_FIELD_VALUES TDecimal = JNull"
| "EMPTY_FIELD_VALUES TInteger = JNull"
| "EMPTY_FIELD_VALUES TString = JStr []"
| "EMPTY_FIELD_VALUES TStringArray = JNull"

definition getEmptyFieldValue :: "Field \<Rightarrow> jsval" where
  "getEmptyFieldValue field = EMPTY_FIELD_VALUES (dataType field)"

subsection \<open>Numbers in template strings\<close>

definition digit_char :: "nat \<Rightarrow> char" where
  "digit_char d =
     (if d = 0 then CHR ''0'' else if d = 1 then CHR ''1'' else if d = 2 then CHR ''2''
      else if d = 3 then CHR ''3'' else if d = 4 then CHR ''4'' else if d = 5 then CHR ''5''
      else if d = 6 then CHR ''6'' else if d = 7 then CHR ''7'' else if d = 8 then CHR ''8''
      else CHR ''9'')"

text \<open>\<open>`${n}`\<close> for a non-negative integer \<open>n\<close>: its decimal digits.\<close>

function string_of_nat :: "nat \<Rightarrow> string" where
  "string_of_nat n =
     (if n < 10 then [digit_char n] else string_of_nat (n div 10) @ [digit_char (n mod 10)])"
  by pat_completeness auto
termination
  by (relation "measure (\<lambda>n. n)") auto

declare string_of_nat.simps [simp del]

subsection \<open>Options of a choice field\<close>

record FormFieldOption =
  opt_key :: string
  opt_htmlId :: string
  opt_value :: string
  opt_label :: string

text \<open>
  \<open>pairs\<close> of \<open>getOptions\<close>: \<open>labeledValues\<close> when that array is present (\<open>map(value => value)\<close>
  copies it), else \<open>values\<close> with each value as its own label, else \<open>undefined\<close>.
\<close>

definition optionPairs :: "Field \<Rightarrow> LabeledValue list option" where
  "optionPairs field =
     (case fieldAllowedValues field of
        None \<Rightarrow> None
      | Some av \<Rightarrow>
          (case labeledValues av of
             Some lvs \<Rightarrow> Some (map (\<lambda>v. v) lvs)
           | None \<Rightarrow>
               map_option (map (\<lambda>v. \<lparr>lv_value = v, lv_label = v\<rparr>)) (av_values av)))"

definition mkOption :: "string \<Rightarrow> LabeledValue \<Rightarrow> nat \<Rightarrow> FormFieldOption" where
  "mkOption htmlId pair index =
     \<lparr>opt_key = string_of_nat index,
      opt_htmlId = htmlId @ ''-option-'' @ string_of_nat index,
      opt_value = lv_value pair,
      opt_label = lv_label pair\<rparr>"

text \<open>\<open>field?.editor?.properties?.placeholderText\<close>.\<close>

definition fieldPlaceholderText :: "Field \<Rightarrow> string option" where
  "fieldPlaceholderText field =
     (case editor field of
        None \<Rightarrow> None
      | Some e \<Rightarrow>
          (case editor_properties e of None \<Rightarrow> None | Some p \<Rightarrow> placeholderText p))"

text \<open>
  \<open>getOptions\<close>. The localisation table is outside the available sources, so the text
  \<open>localisations.pleaseSelect\<close> is the parameter \<open>pleaseSelect\<close>. The result \<open>None\<close> is
  \<open>undefined\<close>.
\<close>

definition getOptions :: "string \<Rightarrow> Field \<Rightarrow> string \<Rightarrow> FormFieldOption list option" where
  "getOptions pleaseSelect field htmlId =
     (let pairs = optionPairs field;
          options =
            map_option (\<lambda>ps. map (\<lambda>(pair, index). mkOption htmlId pair index)
                                 (zip ps [0 ..< length ps])) pairs
      in if getFieldEditorType field = Select
         then
           (let emptyOption =
                  (case options of None \<Rightarrow> None | Some os \<Rightarrow> find (\<lambda>opt. opt_value opt = []) os)
            in if emptyOption = None
               then Some
                 (\<lparr>opt_key = [],
                   opt_htmlId = htmlId @ ''-option--1'',
                   opt_value = [],
                   opt_label =
                     (if truthy_str (fieldPlaceholderText field)
                      then the (fieldPlaceholderText field) else pleaseSelect)\<rparr>
                  # (case options of None \<Rightarrow> [] | Some os \<Rightarrow> os))
               else options)
         else options)"

subsection \<open>Default values and the local clock\<close>

text \<open>
  \<open>new Date()\<close> read through its local-time getters. \<open>getMonth\<close> counts from 0. The clock
  is a parameter of everything that reads it.
\<close>

record JsDate =
  getFullYear :: nat
  getMonth :: nat
  getDate :: nat
  getHours :: nat
  getMinutes :: nat

text \<open>
  \<open>pad(n)\<close> with the default \<open>length = 2\<close>: two zeros in front of the digits, then
  \<open>slice(-2)\<close>, the last two characters.
\<close>

definition pad :: "nat \<Rightarrow> string" where
  "pad n =
     (let padding = replicate 2 CHR ''0'';
          s = padding @ string_of_nat n
      in drop (length s - 2) s)"

definition toLocalIsoDate :: "JsDate \<Rightarrow> string" where
  "toLocalIsoDate dt =
     string_of_nat (getFullYear dt) @ ''-'' @ pad (getMonth dt + 1) @ ''-'' @ pad (getDate dt)
       @ ''T00:00''"

definition toLocalIsoDateTime :: "JsDate \<Rightarrow> string" where
  "toLocalIsoDateTime dt =
     string_of_nat (getFullYear dt) @ ''-'' @ pad (getMonth dt + 1) @ ''-'' @ pad (getDate dt)
       @ ''T'' @ pad (getHours dt) @ '':'' @ pad (getMinutes dt)"

definition toLocalIsoTime :: "JsDate \<Rightarrow> string" where
  "toLocalIsoTime dt = pad (getHours dt) @ '':'' @ pad (getMinutes dt)"

definition getNowDate :: "JsDate \<Rightarrow> string" where
  "getNowDate now = toLocalIsoDate now"

definition getNowDateTime :: "JsDate \<Rightarrow> string" where
  "getNowDateTime now = toLocalIsoDateTime now"

definition getNowTime :: "JsDate \<Rightarrow> string" where
  "getNowTime now = toLocalIsoTime now"

text \<open>
  \<open>getDefaultValue\<close>. \<open>field_default = None\<close> is a field without a \<open>default\<close> member; a
  member holding \<open>undefined\<close> has type \<open>'undefined'\<close> as well.
\<close>

definition getDefaultValue :: "JsDate \<Rightarrow> Field \<Rightarrow> jsval" where
  "getDefaultValue now field =
     (let defaultValue =
            (case field_default field of
               None \<Rightarrow> getEmptyFieldValue field
             | Some v \<Rightarrow> if v \<noteq> JUndefined then v else getEmptyFieldValue field)
      in if dataType field = TDateTime \<and> defaultValue = JStr ''now()''
         then (if getFieldEditorType field = Datetime
               then JStr (getNowDateTime now)
               else JStr (getNowDate now))
         else if dataType field = TString \<and> dataFormat field = Some FTime
                 \<and> defaultValue = JStr ''now()''
         then JStr (getNowTime now)
         else defaultValue)"

section \<open>Pagination helpers and field reduction (state/shared.ts)\<close>

text \<open>The ordered pages of a form; a form that is absent or has no \<open>groups\<close> has none.\<close>

definition formGroups :: "ContentType option \<Rightarrow> Group list" where
  "formGroups form =
     (case form of
        None \<Rightarrow> []
      | Some f \<Rightarrow> (case form_groups f of None \<Rightarrow> [] | Some gs \<Rightarrow> gs))"

text \<open>\<open>Array.prototype.findIndex\<close>: the first index at which the test holds, else \<open>-1\<close>.\<close>

fun findIndex :: "('a \<Rightarrow> bool) \<Rightarrow> 'a list \<Rightarrow> int" where
  "findIndex P [] = -1"
| "findIndex P (x # xs) =
     (if P x then 0 else (let i = findIndex P xs in if i < 0 then -1 else i + 1))"

text \<open>
  Modelled from the spec: \<open>getPageIndex\<close> of \<open>state/shared.ts\<close>, which is not among the
  sources. Spec 4.3: "first matching index, or -1 if form has no groups / not found". An
  absent page id matches no group.
\<close>

definition getPageIndex :: "ContentType option \<Rightarrow> string option \<Rightarrow> int" where
  "getPageIndex form pageId =
     (case pageId of
        None \<Rightarrow> -1
      | Some p \<Rightarrow> findIndex (\<lambda>g. group_id g = p) (formGroups form))"

text \<open>
  Modelled from the spec: \<open>getPageIdAt\<close> of \<open>state/shared.ts\<close>, which is not among the
  sources. Spec 4.3: "group id at index, or absent if out of range or no groups".
\<close>

definition getPageIdAt :: "ContentType option \<Rightarrow> int \<Rightarrow> string option" where
  "getPageIdAt form index =
     (let gs = formGroups form
      in if 0 \<le> index \<and> index < int (length gs)
         then Some (group_id (gs ! nat index)) else None)"

text \<open>
  Modelled from the spec: \<open>getNextPage\<close> and \<open>getPreviousPage\<close> of \<open>state/shared.ts\<close>,
  which is not among the sources. Spec 4.3: "adjacent group id, or absent at boundaries".
  A current page that is no group of the form has no adjacent page.
\<close>

definition getNextPage :: "ContentType option \<Rightarrow> string option \<Rightarrow> string option" where
  "getNextPage form currentPageId =
     (let i = getPageIndex form currentPageId
      in if i < 0 then None else getPageIdAt form (i + 1))"

definition getPreviousPage :: "ContentType option \<Rightarrow> string option \<Rightarrow> string option" where
  "getPreviousPage form currentPageId =
     (let i = getPageIndex form currentPageId
      in if i < 0 then None else getPageIdAt form (i - 1))"

text \<open>
  Modelled from the spec: \<open>getIsLastPage\<close> of \<open>state/shared.ts\<close>, which is not among the
  sources. Spec 4.3: "true when pageId is the final group, or when the form has no groups
  at all (single implicit page)". Being the final group is read through the page index.
\<close>

definition getIsLastPage :: "ContentType option \<Rightarrow> string option \<Rightarrow> bool" where
  "getIsLastPage form pageId =
     (let gs = formGroups form
      in gs = [] \<or> getPageIndex form pageId = int (length gs) - 1)"

text \<open>
  Modelled from the spec: \<open>reduceFields\<close> of \<open>state/shared.ts\<close>, which is not among the
  sources. Spec 3 has \<open>defaultValue\<close> and \<open>emptyValue\<close> as mappings whose keys are all field
  ids of the loaded form; the dictionary is built field by field in form order, the way
  \<open>onSetForm\<close> builds \<open>errors\<close>.
\<close>

definition reduceFields :: "ContentType \<Rightarrow> (Field \<Rightarrow> jsval) \<Rightarrow> dict" where
  "reduceFields form fn =
     foldl (\<lambda>prev field. assign prev (field_id field) (fn field)) [] (form_fields form)"

text \<open>\<open>getDefaultFormValue\<close> and \<open>getEmptyFormValue\<close> of \<open>state/api.ts\<close>.\<close>

definition getDefaultFormValue :: "JsDate \<Rightarrow> ContentType \<Rightarrow> string \<Rightarrow> dict" where
  "getDefaultFormValue now form lang = reduceFields form (\<lambda>field. getDefaultValue now field)"

definition getEmptyFormValue :: "ContentType \<Rightarrow> dict" where
  "getEmptyFormValue form = reduceFields form (\<lambda>field. getEmptyFieldValue field)"

section \<open>The form state reducer (state/api.ts)\<close>

record FormState =
  htmlId :: string
  form :: "ContentType option"
  language :: string
  currentPageId :: "string option"
  "value" :: dict
  defaultValue :: dict
  emptyValue :: dict
  inputValue :: dict
  errors :: dict
  showErrors :: bool
  focussed :: "string option"
  loading :: bool
  loadError :: jsval
  defaultPageTitle :: string

text \<open>
  What the reducer takes from outside: the validator of \<open>state/validation.ts\<close> (not among
  the sources; its result is kept as a JavaScript value and only tested for truthiness),
  \<open>JSON.parse\<close> (\<open>None\<close> when it throws), \<open>JSON.stringify\<close>, the local clock, and
  \<open>prototypeProp\<close>: what the runtime finds for a key that is no own member of a parsed
  JSON value, that is the index and \<open>length\<close> properties of strings and arrays and the
  properties inherited from the built-in prototypes (\<open>constructor\<close>, \<open>toString\<close>, ...), and
  \<open>undefined\<close> when there is none.
\<close>

record Externals =
  validate :: "jsval \<Rightarrow> Field \<Rightarrow> string \<Rightarrow> jsval"
  JSON_parse :: "string \<Rightarrow> jsval option"
  JSON_stringify :: "jsval \<Rightarrow> string"
  clock :: JsDate
  prototypeProp :: "jsval \<Rightarrow> string \<Rightarrow> jsval"

text \<open>
  Optional chaining \<open>o?.[k]\<close> on a parsed JSON value: \<open>undefined\<close> when \<open>o\<close> is
  \<open>null\<close> or \<open>undefined\<close>; the own member of an object when it has one for the key;
  otherwise whatever the runtime finds for the key.
\<close>

fun getProp :: "Externals \<Rightarrow> jsval \<Rightarrow> string \<Rightarrow> jsval" where
  "getProp ext JUndefined k = JUndefined"
| "getProp ext JNull k = JUndefined"
| "getProp ext (JObj ps) k =
     (case map_of ps k of Some x \<Rightarrow> x | None \<Rightarrow> prototypeProp ext (JObj ps) k)"
| "getProp ext v k = prototypeProp ext v k"

text \<open>\<open>localStorage\<close>: \<open>getItem\<close> is application, \<open>null\<close> is \<open>None\<close>.\<close>

type_synonym storage = "string \<Rightarrow> string option"

text \<open>Calls made on the browser's \<open>history\<close> object, in call order.\<close>

datatype HistoryOp = PushState string | ReplaceState string | Back

datatype HistoryAction = Push | Replace

datatype Trigger = Popstate | NoTrigger

definition stateFields :: "FormState \<Rightarrow> Field list" where
  "stateFields state = (case form state of None \<Rightarrow> [] | Some f \<Rightarrow> form_fields f)"

definition currentPageHasErrors :: "FormState \<Rightarrow> bool" where
  "currentPageHasErrors state =
     (let currentPageFieldIds =
            map field_id
              (filter (\<lambda>f. Some (groupId f) = currentPageId state) (stateFields state))
      in list_ex (\<lambda>i. truthy (lookup (errors state) i)) currentPageFieldIds)"

subsection \<open>The persisted draft\<close>

definition pageKey :: "string \<Rightarrow> string" where
  "pageKey formId = ''contensis-form-'' @ formId @ ''-page''"

definition valueKey :: "string \<Rightarrow> string" where
  "valueKey formId = ''contensis-form-'' @ formId @ ''-value''"

text \<open>
  \<open>saveProgress\<close>. \<open>state.value\<close> is an object once a form is loaded, hence truthy, so the
  value entry is always its JSON text.
\<close>

definition saveProgress :: "Externals \<Rightarrow> storage \<Rightarrow> FormState \<Rightarrow> storage" where
  "saveProgress ext localStorage state =
     (case form state of
        None \<Rightarrow> localStorage
      | Some f \<Rightarrow>
          if form_id f \<noteq> []
          then (localStorage
                  (pageKey (form_id f) :=
                     Some (if truthy_str (currentPageId state)
                           then the (currentPageId state) else [])))
                  (valueKey (form_id f) := Some (JSON_stringify ext (JObj (value state))))
          else localStorage)"

definition resetProgress :: "storage \<Rightarrow> FormState \<Rightarrow> storage" where
  "resetProgress localStorage state =
     (case form state of
        None \<Rightarrow> localStorage
      | Some f \<Rightarrow>
          if form_id f \<noteq> []
          then (localStorage (pageKey (form_id f) := None)) (valueKey (form_id f) := None)
          else localStorage)"

record Progress =
  progress_page :: string
  progress_value :: jsval

text \<open>
  \<open>loadProgress\<close>. The form argument is always an object, so \<open>!!form\<close> holds; a
  \<open>JSON.parse\<close> that throws is caught and leaves \<open>null\<close>.
\<close>

definition loadProgress :: "Externals \<Rightarrow> storage \<Rightarrow> ContentType \<Rightarrow> Progress option" where
  "loadProgress ext localStorage frm =
     (let pg = localStorage (pageKey (form_id frm));
          jsonValue = localStorage (valueKey (form_id frm))
      in if truthy_str pg \<and> truthy_str jsonValue
         then (case JSON_parse ext (the jsonValue) of
                 Some v \<Rightarrow> Some \<lparr>progress_page = the pg, progress_value = v\<rparr>
               | None \<Rightarrow> None)
         else None)"

subsection \<open>Transitions\<close>

text \<open>
  The merge of \<open>onSetForm\<close>: \<open>Object.keys(value).reduce(..., value)\<close>. Inside the callback
  \<open>value\<close> is still the default map, since the assignment takes place after the reduction.
\<close>

definition mergeProgress :: "Externals \<Rightarrow> Progress \<Rightarrow> dict \<Rightarrow> dict" where
  "mergeProgress ext progress val =
     foldl (\<lambda>prev key.
              if getProp ext (progress_value progress) key \<noteq> JUndefined
                 \<and> lookup val key \<noteq> JUndefined
              then assign prev key (getProp ext (progress_value progress) key)
              else prev)
           val (keys val)"

definition onSetForm :: "Externals \<Rightarrow> storage \<Rightarrow> FormState \<Rightarrow> ContentType \<Rightarrow> FormState" where
  "onSetForm ext localStorage state frm =
     (let firstPageId = getPageIdAt (Some frm) 0;
          defaultValue0 = getDefaultFormValue (clock ext) frm (language state);
          emptyValue0 = getEmptyFormValue frm;
          progress = loadProgress ext localStorage frm;
          currentPageId0 =
            (case progress of
               None \<Rightarrow> firstPageId
             | Some pr \<Rightarrow>
                 if list_ex (\<lambda>g. group_id g = progress_page pr) (formGroups (Some frm))
                 then Some (progress_page pr) else firstPageId);
          value0 =
            (case progress of
               None \<Rightarrow> defaultValue0
             | Some pr \<Rightarrow> mergeProgress ext pr defaultValue0);
          errors0 =
            foldl (\<lambda>prev f.
                     assign prev (field_id f)
                       (validate ext (lookup value0 (field_id f)) f (language state)))
                  [] (form_fields frm);
          hasErrors = list_ex (\<lambda>key. truthy (lookup errors0 key)) (keys errors0);
          currentPageId1 = (if hasErrors then firstPageId else currentPageId0)
      in \<lparr>htmlId = htmlId state,
          form = Some frm,
          language = language state,
          currentPageId = currentPageId1,
          value = value0,
          defaultValue = defaultValue0,
          emptyValue = emptyValue0,
          inputValue = value0,
          errors = errors0,
          showErrors = False,
          focussed = None,
          loading = False,
          loadError = JNull,
          defaultPageTitle = defaultPageTitle state\<rparr>)"

definition onSetValue :: "Externals \<Rightarrow> FormState \<Rightarrow> string \<Rightarrow> jsval \<Rightarrow> FormState" where
  "onSetValue ext state fieldId fieldValue =
     (case find (\<lambda>f. field_id f = fieldId) (stateFields state) of
        Some field \<Rightarrow>
          (let fieldErrors = validate ext fieldValue field (language state);
               state1 = state\<lparr>value := assign (value state) fieldId fieldValue,
                              errors := assign (errors state) fieldId fieldErrors\<rparr>
           in state1\<lparr>showErrors := showErrors state1 \<and> currentPageHasErrors state1\<rparr>)
      | None \<Rightarrow> state)"

definition onSetInputValue :: "FormState \<Rightarrow> string \<Rightarrow> jsval \<Rightarrow> FormState" where
  "onSetInputValue state fieldId fieldInputValue =
     (case find (\<lambda>f. field_id f = fieldId) (stateFields state) of
        Some field \<Rightarrow>
          state\<lparr>inputValue := assign (inputValue state) fieldId fieldInputValue\<rparr>
      | None \<Rightarrow> state)"

definition onSetFocussed :: "FormState \<Rightarrow> string \<Rightarrow> bool \<Rightarrow> FormState" where
  "onSetFocussed state fieldId isFocussed =
     (if isFocussed then state\<lparr>focussed := Some fieldId\<rparr>
      else if focussed state = Some fieldId then state\<lparr>focussed := None\<rparr>
      else state)"

text \<open>\<open>addToHistory\<close>: nothing happens unless the page id is a string.\<close>

definition addToHistory :: "string option \<Rightarrow> HistoryAction \<Rightarrow> HistoryOp list" where
  "addToHistory pageId action =
     (case pageId of
        None \<Rightarrow> []
      | Some p \<Rightarrow> (if action = Push then [PushState p] else [ReplaceState p]))"

record SubmitResult =
  canSave :: bool
  result_state :: FormState

text \<open>
  \<open>onSubmit\<close>, \<open>onPreviousPage\<close> and \<open>onGotoPage\<close> return their result together with the
  calls they made on \<open>history\<close>.
\<close>

definition onSubmit :: "FormState \<Rightarrow> SubmitResult \<times> HistoryOp list" where
  "onSubmit state =
     (let isValid = \<not> currentPageHasErrors state;
          notSaveable = (\<lparr>canSave = False, result_state = state\<lparr>showErrors := True\<rparr>\<rparr>, [])
      in if isValid
         then
           (let isLastPage = getIsLastPage (form state) (currentPageId state);
                nextPage = getNextPage (form state) (currentPageId state)
            in if truthy_str nextPage
               then (\<lparr>canSave = False,
                       result_state = state\<lparr>showErrors := False, currentPageId := nextPage\<rparr>\<rparr>,
                     addToHistory nextPage Push)
               else if isLastPage
               then (\<lparr>canSave = True, result_state = state\<lparr>showErrors := False\<rparr>\<rparr>, [])
               else notSaveable)
         else notSaveable)"

definition onPreviousPage :: "FormState \<Rightarrow> FormState \<times> HistoryOp list" where
  "onPreviousPage state =
     (let previousPage = getPreviousPage (form state) (currentPageId state)
      in if truthy_str previousPage
         then (state\<lparr>showErrors := False, currentPageId := previousPage\<rparr>,
               addToHistory previousPage Replace)
         else (state, []))"

text \<open>
  \<open>newPageIndex\<close> of \<open>onGotoPage\<close>: a falsy page id (absent, or the empty string) stands
  for index 0.
\<close>

definition newPageIndex :: "FormState \<Rightarrow> string option \<Rightarrow> int" where
  "newPageIndex state pageId =
     (if truthy_str pageId then getPageIndex (form state) pageId else 0)"

definition onGotoPage :: "FormState \<Rightarrow> string option \<Rightarrow> Trigger \<Rightarrow> FormState \<times> HistoryOp list" where
  "onGotoPage state pageId trigger =
     (let currentPageIndex = getPageIndex (form state) (currentPageId state);
          newIndex = newPageIndex state pageId
      in if newIndex \<ge> 0
         then
           (if currentPageIndex < newIndex
            then
              (let isValid = \<not> currentPageHasErrors state
               in if isValid
                  then
                    (let nextPage = getNextPage (form state) (currentPageId state)
                     in if truthy_str nextPage \<and> nextPage = pageId
                        then (state\<lparr>showErrors := False, currentPageId := pageId\<rparr>,
                              if trigger \<noteq> Popstate then addToHistory pageId Push else [])
                        else (state, []))
                  else (state\<lparr>showErrors := True\<rparr>,
                        if trigger = Popstate then [Back] else []))
            else if currentPageIndex > newIndex
            then (state\<lparr>showErrors := False,
                         currentPageId :=
                           (if truthy_str pageId then pageId
                            else getPageIdAt (form state) newIndex)\<rparr>,
                  if trigger \<noteq> Popstate then addToHistory pageId Push else [])
            else (state, []))
         else (state, []))"

subsection \<open>The store actions of \<open>createActions\<close>\<close>

text \<open>
  The store holds the \<open>FormState\<close>; \<open>set\<close> replaces it by the updater's result at once.
  \<open>loadingPromise\<close> is the closure variable of \<open>createActions\<close>. A promise is known by its
  identity only, a number here; \<open>issued\<close> counts the promises created so far, so that every
  \<open>form.then(...)\<close> yields a promise distinct from all earlier ones.
\<close>

record Store =
  store_state :: FormState
  loadingPromise :: "nat option"
  issued :: nat

text \<open>\<open>setForm\<close> on a promise: the part that runs at once. The new promise is returned.\<close>

definition setForm_promise :: "Store \<Rightarrow> Store \<times> nat" where
  "setForm_promise st =
     (let p = issued st
      in (st\<lparr>store_state := (store_state st)\<lparr>loading := True\<rparr>,
             loadingPromise := Some p,
             issued := Suc (issued st)\<rparr>, p))"

text \<open>The fulfilment callback of promise \<open>p\<close>, run with the form it resolved to.\<close>

definition setForm_fulfilled :: "Externals \<Rightarrow> storage \<Rightarrow> nat \<Rightarrow> ContentType \<Rightarrow> Store \<Rightarrow> Store" where
  "setForm_fulfilled ext localStorage p frm st =
     st\<lparr>store_state :=
          (if Some p = loadingPromise st
           then onSetForm ext localStorage (store_state st) frm
           else store_state st),
        loadingPromise := None\<rparr>"

text \<open>The rejection callback of promise \<open>p\<close>.\<close>

definition setForm_rejected :: "nat \<Rightarrow> jsval \<Rightarrow> Store \<Rightarrow> Store" where
  "setForm_rejected p err st =
     st\<lparr>store_state :=
          (if Some p = loadingPromise st
           then (store_state st)\<lparr>loadError := err, loading := False\<rparr>
           else store_state st),
        loadingPromise := None\<rparr>"

text \<open>\<open>setForm\<close> on a form that is ready.\<close>

definition setForm_ready :: "Externals \<Rightarrow> storage \<Rightarrow> ContentType \<Rightarrow> Store \<Rightarrow> Store" where
  "setForm_ready ext localStorage frm st =
     st\<lparr>loadingPromise := None,
        store_state := onSetForm ext localStorage (store_state st) frm\<rparr>"

section \<open>Reference definitions for the properties\<close>

text \<open>
  The definitions of this section are not taken from the code. They put the wording of
  the properties into terms the theorems below compare the code with.
\<close>

subsection \<open>Date and time formats\<close>

definition two_digits :: "nat \<Rightarrow> string" where
  "two_digits n = [digit_char (n div 10), digit_char (n mod 10)]"

definition four_digits :: "nat \<Rightarrow> string" where
  "four_digits n =
     [digit_char (n div 1000), digit_char (n div 100 mod 10), digit_char (n div 10 mod 10),
      digit_char (n mod 10)]"

text \<open>A clock reading with a four-digit year and every other part in its calendar range.\<close>

definition validClock :: "JsDate \<Rightarrow> bool" where
  "validClock d \<longleftrightarrow>
     1000 \<le> getFullYear d \<and> getFullYear d \<le> 9999 \<and> getMonth d < 12
     \<and> 1 \<le> getDate d \<and> getDate d \<le> 31 \<and> getHours d < 24 \<and> getMinutes d < 60"

text \<open>\<open>YYYY-MM-DDT00:00\<close>, \<open>YYYY-MM-DDThh:mm\<close> and \<open>hh:mm\<close>, the month counted from 1.\<close>

definition format_date :: "JsDate \<Rightarrow> string" where
  "format_date d =
     four_digits (getFullYear d) @ ''-'' @ two_digits (getMonth d + 1) @ ''-''
       @ two_digits (getDate d) @ ''T00:00''"

definition format_datetime :: "JsDate \<Rightarrow> string" where
  "format_datetime d =
     four_digits (getFullYear d) @ ''-'' @ two_digits (getMonth d + 1) @ ''-''
       @ two_digits (getDate d) @ ''T'' @ two_digits (getHours d) @ '':''
       @ two_digits (getMinutes d)"

definition format_time :: "JsDate \<Rightarrow> string" where
  "format_time d = two_digits (getHours d) @ '':'' @ two_digits (getMinutes d)"

subsection \<open>Enumerated allowed values\<close>

text \<open>
  The value/label pairs a field enumerates: \<open>labeledValues\<close> before \<open>values\<close>, a bare value
  being its own label; \<open>None\<close> for a field that enumerates nothing.
\<close>

definition enumeratedValues :: "Field \<Rightarrow> (string \<times> string) list option" where
  "enumeratedValues field =
     (case fieldAllowedValues field of
        None \<Rightarrow> None
      | Some av \<Rightarrow>
          (case labeledValues av of
             Some lvs \<Rightarrow> Some (map (\<lambda>lv. (lv_value lv, lv_label lv)) lvs)
           | None \<Rightarrow>
               (case av_values av of
                  Some vs \<Rightarrow> Some (map (\<lambda>v. (v, v)) vs)
                | None \<Rightarrow> None)))"

text \<open>The placeholder label: the editor's non-empty placeholder text, else the localised text.\<close>

definition placeholderLabel :: "string \<Rightarrow> Field \<Rightarrow> string" where
  "placeholderLabel pleaseSelect field =
     (case fieldPlaceholderText field of
        None \<Rightarrow> pleaseSelect
      | Some t \<Rightarrow> if t = [] then pleaseSelect else t)"

definition optionPair :: "FormFieldOption \<Rightarrow> string \<times> string" where
  "optionPair opt = (opt_value opt, opt_label opt)"

subsection \<open>Erroring fields of the current page\<close>


subsection \<open>Key sets of a loaded state\<close>

text \<open>
  The form \<open>frm\<close> is loaded in the state, and each of the five dictionaries has exactly the
  field ids of \<open>frm\<close> as its keys.
\<close>

definition loadedKeySets :: "FormState \<Rightarrow> ContentType \<Rightarrow> bool" where
  "loadedKeySets s frm \<longleftrightarrow>
     form s = Some frm
     \<and> set (keys (value s)) = set (map field_id (form_fields frm))
     \<and> set (keys (defaultValue s)) = set (map field_id (form_fields frm))
     \<and> set (keys (emptyValue s)) = set (map field_id (form_fields frm))
     \<and> set (keys (inputValue s)) = set (map field_id (form_fields frm))
     \<and> set (keys (errors s)) = set (map field_id (form_fields frm))"

section \<open>Sample inputs\<close>

definition noValidations :: FieldValidations where
  "noValidations =
     \<lparr>required = None, v_min = None, v_max = None, minLength = None, maxLength = None,
      minCount = None, maxCount = None, regex = None, allowedValue = None,
      allowedValues = None, pastDateTime = None, decimalPlaces = None\<rparr>"

definition sampleField :: "string \<Rightarrow> FieldDataType \<Rightarrow> string \<Rightarrow> Field" where
  "sampleField i t g =
     \<lparr>field_id = i, field_name = i, dataType = t, dataFormat = None,
      field_description = None, field_default = None, groupId = g,
      validations = None, editor = None\<rparr>"

definition sampleEditor :: "FieldEditorId \<Rightarrow> FieldEditor" where
  "sampleEditor i =
     \<lparr>editor_id = Some i, instructions = None, editor_label = None,
      editor_properties = None\<rparr>"

definition sampleAllowed :: "string list \<Rightarrow> FieldValidations" where
  "sampleAllowed vs =
     noValidations\<lparr>allowedValues :=
       Some \<lparr>av_message = None, av_values = Some vs, labeledValues = None\<rparr>\<rparr>"

definition sampleClock :: JsDate where
  "sampleClock =
     \<lparr>getFullYear = 2026, getMonth = 10, getDate = 3, getHours = 7, getMinutes = 5\<rparr>"

text \<open>
  A validator that knows the \<open>required\<close> constraint only: a list holding one failure for
  an empty, \<open>null\<close> or \<open>undefined\<close> value, \<open>undefined\<close> otherwise.
\<close>

definition sampleValidate :: "jsval \<Rightarrow> Field \<Rightarrow> string \<Rightarrow> jsval" where
  "sampleValidate v field lang =
     (case validations field of
        None \<Rightarrow> JUndefined
      | Some vs \<Rightarrow>
          (case required vs of
             None \<Rightarrow> JUndefined
           | Some r \<Rightarrow>
               if v = JStr [] \<or> v = JNull \<or> v = JUndefined
               then JArr [JStr ''required''] else JUndefined))"

text \<open>A JSON codec that is right on the two objects the samples store.\<close>

definition sampleStringify :: "jsval \<Rightarrow> string" where
  "sampleStringify v =
     (if v = JObj [(''name'', JStr ''x''), (''age'', JNull)] then ''{name:x,age:null}''
      else if v = JObj [(''name'', JStr ''x'')] then ''{name:x}''
      else ''{}'')"

definition sampleParse :: "string \<Rightarrow> jsval option" where
  "sampleParse s =
     (if s = ''{name:x,age:null}'' then Some (JObj [(''name'', JStr ''x''), (''age'', JNull)])
      else if s = ''{name:x}'' then Some (JObj [(''name'', JStr ''x'')])
      else if s = ''{}'' then Some (JObj [])
      else None)"

text \<open>A runtime whose prototypes hold the \<open>constructor\<close> property and nothing else.\<close>

definition samplePrototype :: "jsval \<Rightarrow> string \<Rightarrow> jsval" where
  "samplePrototype v k = (if k = ''constructor'' then JFunction ''Object'' else JUndefined)"

definition sampleExt :: Externals where
  "sampleExt =
     \<lparr>validate = sampleValidate, JSON_parse = sampleParse, JSON_stringify = sampleStringify,
      clock = sampleClock, prototypeProp = samplePrototype\<rparr>"

definition emptyStorage :: storage where
  "emptyStorage = (\<lambda>k. None)"

text \<open>
  A form of three pages: page \<open>A\<close> holds the required text field \<open>name\<close>, page \<open>B\<close> the
  optional integer field \<open>age\<close>, page \<open>C\<close> no field. \<open>sampleFlatForm\<close> is a form without groups, with the field
  \<open>name\<close> alone.
\<close>

definition sampleRequired :: FieldValidations where
  "sampleRequired = noValidations\<lparr>required := Some \<lparr>message = None\<rparr>\<rparr>"

definition sampleForm :: ContentType where
  "sampleForm =
     \<lparr>form_id = ''f'', form_name = ''Sample'', form_description = [],
      form_fields =
        [(sampleField ''name'' TString ''A'')\<lparr>validations := Some sampleRequired\<rparr>,
         sampleField ''age'' TInteger ''B''],
      form_groups =
        Some [\<lparr>group_id = ''A'', group_name = ''Page A''\<rparr>,
              \<lparr>group_id = ''B'', group_name = ''Page B''\<rparr>,
              \<lparr>group_id = ''C'', group_name = ''Page C''\<rparr>],
      form_language = ''en-GB''\<rparr>"

definition sampleFlatForm :: ContentType where
  "sampleFlatForm =
     \<lparr>form_id = ''g'', form_name = ''Flat'', form_description = [],
      form_fields = [sampleField ''name'' TString ''A''],
      form_groups = None,
      form_language = ''en-GB''\<rparr>"

text \<open>The state a form instance starts with, and the state after \<open>sampleForm\<close> is loaded.\<close>

definition sampleInitial :: FormState where
  "sampleInitial =
     \<lparr>htmlId = ''form-1'', form = None, language = ''en-GB'', currentPageId = None,
      value = [], defaultValue = [], emptyValue = [], inputValue = [], errors = [],
      showErrors = False, focussed = None, loading = False, loadError = JNull,
      defaultPageTitle = ''Form''\<rparr>"

definition sampleLoaded :: FormState where
  "sampleLoaded = onSetForm sampleExt emptyStorage sampleInitial sampleForm"

text \<open>A stored draft of \<open>sampleForm\<close> on page \<open>pg\<close>, holding the name \<open>x\<close>.\<close>

definition sampleDraft :: "string \<Rightarrow> storage" where
  "sampleDraft pg =
     (emptyStorage (pageKey ''f'' := Some pg)) (valueKey ''f'' := Some ''{name:x,age:null}'')"

text \<open>
  The flat form loaded, and then its field \<open>name\<close> set to \<open>x\<close>; the store before any
  load, and after two loads were started with promises.
\<close>

definition sampleFlatLoaded :: FormState where
  "sampleFlatLoaded = onSetForm sampleExt emptyStorage sampleInitial sampleFlatForm"

definition sampleFlatFilled :: FormState where
  "sampleFlatFilled = onSetValue sampleExt sampleFlatLoaded ''name'' (JStr ''x'')"

definition sampleStore :: Store where
  "sampleStore = \<lparr>store_state = sampleInitial, loadingPromise = None, issued = 0\<rparr>"

definition sampleTwoLoads :: Store where
  "sampleTwoLoads = fst (setForm_promise (fst (setForm_promise sampleStore)))"





section \<open>Field derivation: default values and options\<close>

subsection \<open>Digits and padding\<close>

lemma string_of_nat_lt10: "n < 10 \<Longrightarrow> string_of_nat n = [digit_char n]"
  by (simp add: string_of_nat.simps)

lemma string_of_nat_lt100: "10 \<le> n \<Longrightarrow> n < 100 \<Longrightarrow> string_of_nat n = two_digits n"
  by (subst string_of_nat.simps) (simp add: string_of_nat_lt10 two_digits_def)

lemma pad_two_digits: "n < 100 \<Longrightarrow> pad n = two_digits n"
proof (cases "n < 10")
  case True
  then show ?thesis
    by (simp add: pad_def string_of_nat_lt10 two_digits_def digit_char_def)
next
  case False
  assume "n < 100"
  with False show ?thesis
    by (simp add: pad_def string_of_nat_lt100 two_digits_def)
qed

lemma string_of_nat_lt1000:
  "100 \<le> n \<Longrightarrow> n < 1000 \<Longrightarrow>
   string_of_nat n = [digit_char (n div 100), digit_char (n div 10 mod 10), digit_char (n mod 10)]"
  by (subst string_of_nat.simps) (simp add: string_of_nat_lt100 two_digits_def div_mult2_eq[symmetric])

lemma string_of_nat_four_digits:
  "1000 \<le> n \<Longrightarrow> n < 10000 \<Longrightarrow> string_of_nat n = four_digits n"
  by (subst string_of_nat.simps) (simp add: string_of_nat_lt1000 four_digits_def div_mult2_eq[symmetric])


lemma toLocalIsoDate_format: "validClock d \<Longrightarrow> toLocalIsoDate d = format_date d"
  by (simp add: validClock_def toLocalIsoDate_def format_date_def pad_two_digits
      string_of_nat_four_digits)

lemma toLocalIsoDateTime_format: "validClock d \<Longrightarrow> toLocalIsoDateTime d = format_datetime d"
  by (simp add: validClock_def toLocalIsoDateTime_def format_datetime_def pad_two_digits
      string_of_nat_four_digits)

lemma toLocalIsoTime_format: "validClock d \<Longrightarrow> toLocalIsoTime d = format_time d"
  by (simp add: validClock_def toLocalIsoTime_def format_time_def pad_two_digits)

text \<open>
  Claim C8. \<open>getDefaultValue\<close>: an explicit default other than the text \<open>now()\<close> is returned
  as it is, and a field without a default gets its empty value. For the default \<open>now()\<close>
  and a clock reading with a four-digit year, a \<open>dateTime\<close> field gets the local date as
  \<open>YYYY-MM-DDT00:00\<close> when its editor type is \<open>date\<close> and the local date and time as
  \<open>YYYY-MM-DDThh:mm\<close> when it is \<open>datetime\<close>; a \<open>string\<close> field of format \<open>time\<close> gets the
  local time as \<open>hh:mm\<close>. Every part is zero-padded and taken from the local getters.
\<close>

theorem getDefaultValue_resolution:
  "(field_default field = Some v \<and> v \<noteq> JUndefined \<and> v \<noteq> JStr ''now()''
      \<longrightarrow> getDefaultValue now field = v)
   \<and> (field_default field = None \<longrightarrow> getDefaultValue now field = getEmptyFieldValue field)
   \<and> (validClock now \<and> field_default field = Some (JStr ''now()'')
        \<and> dataType field = TDateTime \<and> getFieldEditorType field = Date
      \<longrightarrow> getDefaultValue now field = JStr (format_date now))
   \<and> (validClock now \<and> field_default field = Some (JStr ''now()'')
        \<and> dataType field = TDateTime \<and> getFieldEditorType field = Datetime
      \<longrightarrow> getDefaultValue now field = JStr (format_datetime now))
   \<and> (validClock now \<and> field_default field = Some (JStr ''now()'')
        \<and> dataType field = TString \<and> dataFormat field = Some FTime
      \<longrightarrow> getDefaultValue now field = JStr (format_time now))"
proof -
  have empty_not_now: "getEmptyFieldValue field \<noteq> JStr ''now()''"
    by (cases "dataType field") (simp_all add: getEmptyFieldValue_def)
  show ?thesis
    using empty_not_now
    by (simp add: getDefaultValue_def getNowDate_def getNowDateTime_def getNowTime_def
        toLocalIsoDate_format toLocalIsoDateTime_format toLocalIsoTime_format)
qed


theorem getDefaultValue_resolution_witness:
  "getDefaultValue sampleClock ((sampleField ''n'' TInteger ''p'')\<lparr>field_default := Some (JNum 5)\<rparr>)
     = JNum 5
   \<and> getDefaultValue sampleClock (sampleField ''d'' TDateTime ''p'') = JNull
   \<and> validClock sampleClock
   \<and> getDefaultValue sampleClock
        ((sampleField ''d'' TDateTime ''p'')\<lparr>field_default := Some (JStr ''now()'')\<rparr>)
     = JStr ''2026-11-03T00:00''
   \<and> getDefaultValue sampleClock
        ((sampleField ''d'' TDateTime ''p'')
           \<lparr>field_default := Some (JStr ''now()''), editor := Some (sampleEditor EDatetime)\<rparr>)
     = JStr ''2026-11-03T07:05''
   \<and> getDefaultValue sampleClock
        ((sampleField ''t'' TString ''p'')
           \<lparr>field_default := Some (JStr ''now()''), dataFormat := Some FTime\<rparr>)
     = JStr ''07:05''"
proof -
  let ?n = "(sampleField ''n'' TInteger ''p'')\<lparr>field_default := Some (JNum 5)\<rparr>"
  let ?e = "sampleField ''d'' TDateTime ''p''"
  let ?d = "(sampleField ''d'' TDateTime ''p'')\<lparr>field_default := Some (JStr ''now()'')\<rparr>"
  let ?dt = "(sampleField ''d'' TDateTime ''p'')
      \<lparr>field_default := Some (JStr ''now()''), editor := Some (sampleEditor EDatetime)\<rparr>"
  let ?t = "(sampleField ''t'' TString ''p'')
      \<lparr>field_default := Some (JStr ''now()''), dataFormat := Some FTime\<rparr>"
  have clk: "validClock sampleClock"
    by (simp add: validClock_def sampleClock_def)
  have fmt: "format_date sampleClock = ''2026-11-03T00:00''"
    "format_datetime sampleClock = ''2026-11-03T07:05''"
    "format_time sampleClock = ''07:05''"
    by (simp_all add: format_date_def format_datetime_def format_time_def sampleClock_def
        four_digits_def two_digits_def digit_char_def)
  have ed: "getFieldEditorType ?d = Date" "getFieldEditorType ?dt = Datetime"
    by (simp_all add: getFieldEditorType_def sampleField_def sampleEditor_def
        fieldAllowedValues_def)
  have "getDefaultValue sampleClock ?n = JNum 5"
    using getDefaultValue_resolution [of ?n "JNum 5" sampleClock]
    by (simp add: sampleField_def)
  moreover have "getDefaultValue sampleClock ?e = JNull"
    using getDefaultValue_resolution [of ?e _ sampleClock]
    by (simp add: sampleField_def getEmptyFieldValue_def)
  moreover have "getDefaultValue sampleClock ?d = JStr ''2026-11-03T00:00''"
    using getDefaultValue_resolution [of ?d _ sampleClock] clk ed fmt
    by (simp add: sampleField_def)
  moreover have "getDefaultValue sampleClock ?dt = JStr ''2026-11-03T07:05''"
    using getDefaultValue_resolution [of ?dt _ sampleClock] clk ed fmt
    by (simp add: sampleField_def)
  moreover have "getDefaultValue sampleClock ?t = JStr ''07:05''"
    using getDefaultValue_resolution [of ?t _ sampleClock] clk fmt
    by (simp add: sampleField_def)
  ultimately show ?thesis using clk by simp
qed

subsection \<open>Options\<close>

lemma map_mkOption_pairs:
  "length ns = length ps \<Longrightarrow>
   map (optionPair \<circ> (\<lambda>(pair, index). mkOption hid pair index)) (zip ps ns)
   = map (\<lambda>lv. (lv_value lv, lv_label lv)) ps"
proof (induction ps arbitrary: ns)
  case Nil
  then show ?case by simp
next
  case (Cons p ps)
  then obtain n ns' where "ns = n # ns'" by (cases ns) auto
  with Cons show ?case by (simp add: optionPair_def mkOption_def)
qed

lemma map_mkOption_upt:
  "map optionPair (map (\<lambda>(pair, index). mkOption hid pair index) (zip ps [0 ..< length ps]))
   = map (\<lambda>lv. (lv_value lv, lv_label lv)) ps"
  by (simp add: map_mkOption_pairs)

lemma enumerated_optionPairs:
  "enumeratedValues field = map_option (map (\<lambda>lv. (lv_value lv, lv_label lv))) (optionPairs field)"
  by (simp add: enumeratedValues_def optionPairs_def comp_def split: option.splits)

lemma find_empty_value:
  "(find (\<lambda>opt. opt_value opt = []) os = None) \<longleftrightarrow> [] \<notin> fst ` set (map optionPair os)"
  by (auto simp: find_None_iff optionPair_def image_iff)

text \<open>
  Claim C10. \<open>getOptions\<close>: for a field whose editor type is not \<open>select\<close> the options
  are the enumerated value/label pairs in their order (\<open>labeledValues\<close> before \<open>values\<close>, a
  bare value labelled by itself), and there is no list when nothing is enumerated. For a
  \<open>select\<close> field an option with the empty value and the placeholder label is put in front
  unless an enumerated option already has the empty value; a \<open>select\<close> field that
  enumerates nothing gets the one-element list holding that option.
\<close>

theorem getOptions_enumerated:
  "(getFieldEditorType field \<noteq> Select \<longrightarrow>
      map_option (map optionPair) (getOptions pleaseSelect field hid) = enumeratedValues field)
   \<and> (getFieldEditorType field = Select \<and> enumeratedValues field = Some ps
        \<and> [] \<in> fst ` set ps \<longrightarrow>
      map_option (map optionPair) (getOptions pleaseSelect field hid) = Some ps)
   \<and> (getFieldEditorType field = Select \<and> enumeratedValues field = Some ps
        \<and> [] \<notin> fst ` set ps \<longrightarrow>
      (\<exists>opt os. getOptions pleaseSelect field hid = Some (opt # os)
         \<and> opt_value opt = [] \<and> opt_label opt = placeholderLabel pleaseSelect field
         \<and> map optionPair os = ps))
   \<and> (getFieldEditorType field = Select \<and> enumeratedValues field = None \<longrightarrow>
      (\<exists>opt. getOptions pleaseSelect field hid = Some [opt]
         \<and> opt_value opt = [] \<and> opt_label opt = placeholderLabel pleaseSelect field))"
proof -
  have label: "(if truthy_str (fieldPlaceholderText field)
                then the (fieldPlaceholderText field) else pleaseSelect)
               = placeholderLabel pleaseSelect field"
    by (cases "fieldPlaceholderText field") (simp_all add: placeholderLabel_def)
  show ?thesis
  proof (cases "optionPairs field")
    case None
    then show ?thesis
      by (simp add: getOptions_def enumerated_optionPairs label)
  next
    case (Some lvs)
    let ?os = "map (\<lambda>(pair, index). mkOption hid pair index) (zip lvs [0 ..< length lvs])"
    have pairs: "map optionPair ?os = map (\<lambda>lv. (lv_value lv, lv_label lv)) lvs"
      by (rule map_mkOption_upt)
    have found: "(find (\<lambda>opt. opt_value opt = []) ?os = None)
                 \<longleftrightarrow> [] \<notin> fst ` set (map (\<lambda>lv. (lv_value lv, lv_label lv)) lvs)"
      unfolding find_empty_value pairs ..
    show ?thesis
      using Some pairs found
      by (auto simp: getOptions_def enumerated_optionPairs label Let_def)
  qed
qed

theorem getOptions_enumerated_witness:
  "getFieldEditorType ((sampleField ''c'' TString ''p'')\<lparr>validations := Some (sampleAllowed [''a'', ''b''])\<rparr>)
     \<noteq> Select
   \<and> map_option (map optionPair)
        (getOptions ''Please select''
           ((sampleField ''c'' TString ''p'')\<lparr>validations := Some (sampleAllowed [''a'', ''b''])\<rparr>) ''f'')
     = Some [(''a'', ''a''), (''b'', ''b'')]
   \<and> getFieldEditorType ((sampleField ''c'' TString ''p'')\<lparr>editor := Some (sampleEditor EListDropdown)\<rparr>)
     = Select
   \<and> (\<exists>opt. getOptions ''Please select''
          ((sampleField ''c'' TString ''p'')\<lparr>editor := Some (sampleEditor EListDropdown)\<rparr>) ''f''
        = Some [opt] \<and> opt_value opt = [] \<and> opt_label opt = ''Please select'')
   \<and> map_option (map optionPair)
        (getOptions ''Please select''
           ((sampleField ''c'' TString ''p'')
              \<lparr>validations := Some (sampleAllowed [''a'', []]),
               editor := Some (sampleEditor EListDropdown)\<rparr>) ''f'')
     = Some [(''a'', ''a''), ([], [])]
   \<and> (\<exists>opt os. getOptions ''Please select''
          ((sampleField ''c'' TString ''p'')
              \<lparr>validations := Some (sampleAllowed [''a'', ''b'']),
               editor := Some (sampleEditor EListDropdown)\<rparr>) ''f''
        = Some (opt # os) \<and> opt_value opt = [] \<and> opt_label opt = ''Please select''
          \<and> map optionPair os = [(''a'', ''a''), (''b'', ''b'')])"
proof -
  let ?r = "(sampleField ''c'' TString ''p'')\<lparr>validations := Some (sampleAllowed [''a'', ''b''])\<rparr>"
  let ?s0 = "(sampleField ''c'' TString ''p'')\<lparr>editor := Some (sampleEditor EListDropdown)\<rparr>"
  let ?s1 = "(sampleField ''c'' TString ''p'')
      \<lparr>validations := Some (sampleAllowed [''a'', []]),
       editor := Some (sampleEditor EListDropdown)\<rparr>"
  let ?s2 = "(sampleField ''c'' TString ''p'')
      \<lparr>validations := Some (sampleAllowed [''a'', ''b'']),
       editor := Some (sampleEditor EListDropdown)\<rparr>"
  note defs = getFieldEditorType_def sampleField_def sampleEditor_def sampleAllowed_def
    noValidations_def fieldAllowedValues_def enumeratedValues_def placeholderLabel_def
    fieldPlaceholderText_def
  have ed: "getFieldEditorType ?r = Radio" "getFieldEditorType ?s0 = Select"
    "getFieldEditorType ?s1 = Select" "getFieldEditorType ?s2 = Select"
    by (simp_all add: defs)
  have en: "enumeratedValues ?r = Some [(''a'', ''a''), (''b'', ''b'')]"
    "enumeratedValues ?s0 = None"
    "enumeratedValues ?s1 = Some [(''a'', ''a''), ([], [])]"
    "enumeratedValues ?s2 = Some [(''a'', ''a''), (''b'', ''b'')]"
    by (simp_all add: defs)
  have pl: "placeholderLabel ''Please select'' ?s0 = ''Please select''"
    "placeholderLabel ''Please select'' ?s2 = ''Please select''"
    by (simp_all add: defs)
  have c1: "map_option (map optionPair) (getOptions ''Please select'' ?r ''f'')
            = Some [(''a'', ''a''), (''b'', ''b'')]"
    using getOptions_enumerated [of ?r "''Please select''" "''f''"] ed en by simp
  have c2: "\<exists>opt. getOptions ''Please select'' ?s0 ''f'' = Some [opt] \<and> opt_value opt = []
              \<and> opt_label opt = ''Please select''"
    using getOptions_enumerated [of ?s0 "''Please select''" "''f''"] ed en pl by simp
  have c3: "map_option (map optionPair) (getOptions ''Please select'' ?s1 ''f'')
            = Some [(''a'', ''a''), ([], [])]"
    using getOptions_enumerated [of ?s1 "''Please select''" "''f''" "[(''a'', ''a''), ([], [])]"]
      ed en by simp
  have c4: "\<exists>opt os. getOptions ''Please select'' ?s2 ''f'' = Some (opt # os)
              \<and> opt_value opt = [] \<and> opt_label opt = ''Please select''
              \<and> map optionPair os = [(''a'', ''a''), (''b'', ''b'')]"
    using getOptions_enumerated [of ?s2 "''Please select''" "''f''" "[(''a'', ''a''), (''b'', ''b'')]"]
      ed en pl by simp
  show ?thesis using ed c1 c2 c3 c4 by simp
qed


section \<open>The reducer\<close>

subsection \<open>Dictionaries\<close>

lemma keys_assign: "set (keys (assign d k v)) = insert k (set (keys d))"
proof (induction d)
  case Nil
  show ?case by (simp add: keys_def)
next
  case (Cons p d)
  obtain k' v' where p: "p = (k', v')" by (cases p)
  from Cons show ?case by (auto simp: keys_def p)
qed

lemma keys_assign_mem: "k \<in> set (keys d) \<Longrightarrow> keys (assign d k v) = keys d"
proof (induction d)
  case Nil
  then show ?case by (simp add: keys_def)
next
  case (Cons p d)
  obtain k' v' where p: "p = (k', v')" by (cases p)
  from Cons show ?case by (auto simp: keys_def p)
qed

lemma lookup_assign: "lookup (assign d k v) k' = (if k' = k then v else lookup d k')"
  by (induction d) (auto simp: lookup_def)

lemma find_field_None:
  "find (\<lambda>f. field_id f = fid) fs = None \<longleftrightarrow> fid \<notin> set (map field_id fs)"
  by (auto simp: find_None_iff)

lemma find_field_Some:
  "find (\<lambda>f. field_id f = fid) fs = Some f \<Longrightarrow> fid \<in> set (map field_id fs)"
  by (auto simp: find_Some_iff)

subsection \<open>The sample states\<close>

lemma sampleLoaded_eq:
  "sampleLoaded =
     \<lparr>htmlId = ''form-1'', form = Some sampleForm, language = ''en-GB'',
      currentPageId = Some ''A'',
      value = [(''name'', JStr []), (''age'', JNull)],
      defaultValue = [(''name'', JStr []), (''age'', JNull)],
      emptyValue = [(''name'', JStr []), (''age'', JNull)],
      inputValue = [(''name'', JStr []), (''age'', JNull)],
      errors = [(''name'', JArr [JStr ''required'']), (''age'', JUndefined)],
      showErrors = False, focussed = None, loading = False, loadError = JNull,
      defaultPageTitle = ''Form''\<rparr>"
  by (simp add: sampleLoaded_def onSetForm_def sampleForm_def sampleInitial_def sampleExt_def
      emptyStorage_def loadProgress_def getPageIdAt_def formGroups_def getDefaultFormValue_def
      getEmptyFormValue_def reduceFields_def getDefaultValue_def getEmptyFieldValue_def
      sampleField_def sampleValidate_def sampleRequired_def noValidations_def lookup_def
      keys_def Let_def)

lemma sampleFilled_eq:
  "onSetValue sampleExt sampleLoaded ''name'' (JStr ''x'') =
     \<lparr>htmlId = ''form-1'', form = Some sampleForm, language = ''en-GB'',
      currentPageId = Some ''A'',
      value = [(''name'', JStr ''x''), (''age'', JNull)],
      defaultValue = [(''name'', JStr []), (''age'', JNull)],
      emptyValue = [(''name'', JStr []), (''age'', JNull)],
      inputValue = [(''name'', JStr []), (''age'', JNull)],
      errors = [(''name'', JUndefined), (''age'', JUndefined)],
      showErrors = False, focussed = None, loading = False, loadError = JNull,
      defaultPageTitle = ''Form''\<rparr>"
  by (simp add: sampleLoaded_eq onSetValue_def stateFields_def sampleForm_def sampleField_def
      sampleExt_def sampleValidate_def sampleRequired_def noValidations_def Let_def)

lemma sample_fields:
  "form_fields sampleForm =
     [(sampleField ''name'' TString ''A'')\<lparr>validations := Some sampleRequired\<rparr>,
      sampleField ''age'' TInteger ''B'']"
  by (simp add: sampleForm_def)

lemma sample_pages:
  "getPageIndex (Some sampleForm) (Some ''A'') = 0"
  "getPageIndex (Some sampleForm) (Some ''B'') = 1"
  "getPageIndex (Some sampleForm) (Some ''C'') = 2"
  "getPageIndex (Some sampleForm) (Some ''Z'') = - 1"
  "getNextPage (Some sampleForm) (Some ''A'') = Some ''B''"
  "getNextPage (Some sampleForm) (Some ''C'') = None"
  "getIsLastPage (Some sampleForm) (Some ''C'')"
  "getPageIdAt (Some sampleForm) 0 = Some ''A''"
  by (simp_all add: getPageIndex_def getNextPage_def getIsLastPage_def getPageIdAt_def
      formGroups_def sampleForm_def Let_def)

subsection \<open>Setting the input value\<close>

text \<open>
  Claim C9. Frame of \<open>onSetInputValue\<close>: \<open>value\<close>, \<open>errors\<close> and \<open>currentPageId\<close> stay as they
  are, every \<open>inputValue\<close> entry other than the one of the given field id stays as it is,
  and no member of the state other than \<open>inputValue\<close> changes. The function does not take
  the validator, so it cannot validate.
\<close>

theorem onSetInputValue_frame:
  "value (onSetInputValue s fid v) = value s
   \<and> errors (onSetInputValue s fid v) = errors s
   \<and> currentPageId (onSetInputValue s fid v) = currentPageId s
   \<and> (\<forall>k. k \<noteq> fid \<longrightarrow>
         lookup (inputValue (onSetInputValue s fid v)) k = lookup (inputValue s) k)
   \<and> onSetInputValue s fid v = s\<lparr>inputValue := inputValue (onSetInputValue s fid v)\<rparr>"
  by (simp add: onSetInputValue_def lookup_assign split: option.splits)

theorem onSetInputValue_frame_witness:
  "''age'' \<noteq> ''name''
   \<and> lookup (inputValue (onSetInputValue sampleLoaded ''name'' (JStr ''x''))) ''age''
       = lookup (inputValue sampleLoaded) ''age''
   \<and> lookup (inputValue (onSetInputValue sampleLoaded ''name'' (JStr ''x''))) ''name'' = JStr ''x''
   \<and> value (onSetInputValue sampleLoaded ''name'' (JStr ''x'')) = value sampleLoaded"
proof -
  have "lookup (inputValue (onSetInputValue sampleLoaded ''name'' (JStr ''x''))) ''name'' = JStr ''x''"
    by (simp add: sampleLoaded_eq onSetInputValue_def stateFields_def sampleForm_def
        sampleField_def lookup_def)
  then show ?thesis
    using onSetInputValue_frame [of sampleLoaded "''name''" "JStr ''x''"] by simp
qed

subsection \<open>Unknown field ids\<close>

text \<open>
  The focus setter does not look the field id up: focussing a field id that the loaded
  form does not have changes the state.
\<close>

theorem focus_setter_unknown_field_counterexample:
  "''ghost'' \<notin> set (map field_id (stateFields sampleLoaded))
   \<and> onSetFocussed sampleLoaded ''ghost'' True \<noteq> sampleLoaded"
proof -
  have "focussed (onSetFocussed sampleLoaded ''ghost'' True) = Some ''ghost''"
    by (simp add: onSetFocussed_def)
  moreover have "focussed sampleLoaded = None"
    by (simp add: sampleLoaded_eq)
  ultimately have "onSetFocussed sampleLoaded ''ghost'' True \<noteq> sampleLoaded"
    by auto
  moreover have "''ghost'' \<notin> set (map field_id (stateFields sampleLoaded))"
    by (simp add: sampleLoaded_eq stateFields_def sample_fields sampleField_def)
  ultimately show ?thesis by simp
qed

text \<open>
  Claim C6, amended. For a field id that is not among the loaded form's fields, the value
  setter and the input-value setter leave the state unchanged. The focus setter does not
  look the id up: focussing records the id as the focussed one, and un-focussing leaves
  the state unchanged unless that id is the focussed one, which it then clears.
\<close>

theorem unknown_field_setters:
  "fid \<notin> set (map field_id (stateFields s)) \<longrightarrow>
     onSetValue ext s fid v = s
     \<and> onSetInputValue s fid v = s
     \<and> onSetFocussed s fid True = s\<lparr>focussed := Some fid\<rparr>
     \<and> onSetFocussed s fid False = (if focussed s = Some fid then s\<lparr>focussed := None\<rparr> else s)"
proof
  assume "fid \<notin> set (map field_id (stateFields s))"
  then have none: "find (\<lambda>f. field_id f = fid) (stateFields s) = None"
    using find_field_None [of fid "stateFields s"] by blast
  show "onSetValue ext s fid v = s
     \<and> onSetInputValue s fid v = s
     \<and> onSetFocussed s fid True = s\<lparr>focussed := Some fid\<rparr>
     \<and> onSetFocussed s fid False = (if focussed s = Some fid then s\<lparr>focussed := None\<rparr> else s)"
    by (simp add: onSetValue_def onSetInputValue_def onSetFocussed_def none)
qed

theorem unknown_field_setters_witness:
  "''ghost'' \<notin> set (map field_id (stateFields sampleLoaded))
   \<and> onSetValue sampleExt sampleLoaded ''ghost'' (JStr ''x'') = sampleLoaded
   \<and> onSetInputValue sampleLoaded ''ghost'' (JStr ''x'') = sampleLoaded
   \<and> onSetFocussed sampleLoaded ''ghost'' True = sampleLoaded\<lparr>focussed := Some ''ghost''\<rparr>
   \<and> onSetFocussed sampleLoaded ''ghost'' False = sampleLoaded"
proof -
  have h: "''ghost'' \<notin> set (map field_id (stateFields sampleLoaded))"
    by (simp add: sampleLoaded_eq stateFields_def sample_fields sampleField_def)
  have f: "focussed sampleLoaded \<noteq> Some ''ghost''"
    by (simp add: sampleLoaded_eq)
  show ?thesis
    using unknown_field_setters [of "''ghost''" sampleLoaded sampleExt "JStr ''x''"] h f
    by simp
qed

subsection \<open>Pages\<close>

lemma findIndex_ge: "- 1 \<le> findIndex P xs"
  by (induction xs) (auto simp: Let_def)

lemma findIndex_lt: "findIndex P xs < int (length xs)"
  by (induction xs) (auto simp: Let_def)

lemma findIndex_nth: "0 \<le> findIndex P xs \<Longrightarrow> P (xs ! nat (findIndex P xs))"
proof (induction xs)
  case Nil
  then show ?case by simp
next
  case (Cons x xs)
  show ?case
  proof (cases "P x")
    case True
    then show ?thesis by simp
  next
    case False
    with Cons.prems have nn: "0 \<le> findIndex P xs"
      by (simp add: Let_def split: if_splits)
    with Cons.IH have "P (xs ! nat (findIndex P xs))" by simp
    with False nn show ?thesis
      by (simp add: Let_def nat_add_distrib)
  qed
qed

lemma getPageIndex_ge: "- 1 \<le> getPageIndex frm pid"
  by (cases pid) (simp_all add: getPageIndex_def findIndex_ge)

lemma getPageIdAt_getPageIndex:
  "0 \<le> getPageIndex frm (Some p) \<Longrightarrow> getPageIdAt frm (getPageIndex frm (Some p)) = Some p"
  using findIndex_nth [of "\<lambda>g. group_id g = p" "formGroups frm"]
    findIndex_lt [of "\<lambda>g. group_id g = p" "formGroups frm"]
  by (simp add: getPageIdAt_def getPageIndex_def)


lemma currentPageHasErrors_iff:
  "currentPageHasErrors s \<longleftrightarrow>
     (\<exists>f \<in> set (stateFields s).
        Some (groupId f) = currentPageId s \<and> truthy (lookup (errors s) (field_id f)))"
  by (auto simp: currentPageHasErrors_def list_ex_iff)

subsection \<open>Submit\<close>










subsection \<open>Going to a page\<close>

text \<open>
  Claim C5. \<open>onGotoPage\<close>, with the target index resolved as the code resolves it (a
  falsy page id stands for index 0). Forward, with an error on the current page: only
  \<open>showErrors = true\<close>. Forward, without errors, to the immediate next page: the state moves
  there with \<open>showErrors = false\<close>. Forward, without errors, to any other page: nothing
  changes. Backward to a valid index: the state moves to the page at that index with
  \<open>showErrors = false\<close>, whatever the errors. An equal or invalid target index: nothing
  changes. So a forward request changes \<open>currentPageId\<close> only when the current page has
  no errors and the target is the immediate next page.
\<close>

theorem onGotoPage_cases:
  "(getPageIndex (form s) (currentPageId s) < newPageIndex s pid
      \<and> (\<exists>f \<in> set (stateFields s).
            Some (groupId f) = currentPageId s \<and> truthy (lookup (errors s) (field_id f)))
      \<longrightarrow> fst (onGotoPage s pid trg) = s\<lparr>showErrors := True\<rparr>)
   \<and> (getPageIndex (form s) (currentPageId s) < newPageIndex s pid
      \<and> \<not> (\<exists>f \<in> set (stateFields s).
            Some (groupId f) = currentPageId s \<and> truthy (lookup (errors s) (field_id f)))
      \<and> getNextPage (form s) (currentPageId s) = Some p \<and> pid = Some p
      \<longrightarrow> fst (onGotoPage s pid trg) = s\<lparr>showErrors := False, currentPageId := Some p\<rparr>)
   \<and> (getPageIndex (form s) (currentPageId s) < newPageIndex s pid
      \<and> \<not> (\<exists>f \<in> set (stateFields s).
            Some (groupId f) = currentPageId s \<and> truthy (lookup (errors s) (field_id f)))
      \<and> \<not> (\<exists>q. getNextPage (form s) (currentPageId s) = Some q \<and> pid = Some q)
      \<longrightarrow> fst (onGotoPage s pid trg) = s)
   \<and> (0 \<le> newPageIndex s pid
      \<and> newPageIndex s pid < getPageIndex (form s) (currentPageId s)
      \<longrightarrow> fst (onGotoPage s pid trg)
          = s\<lparr>showErrors := False,
              currentPageId := getPageIdAt (form s) (newPageIndex s pid)\<rparr>)
   \<and> (newPageIndex s pid = getPageIndex (form s) (currentPageId s) \<or> newPageIndex s pid < 0
      \<longrightarrow> fst (onGotoPage s pid trg) = s)
   \<and> (getPageIndex (form s) (currentPageId s) < newPageIndex s pid
      \<and> currentPageId (fst (onGotoPage s pid trg)) \<noteq> currentPageId s
      \<longrightarrow> \<not> (\<exists>f \<in> set (stateFields s).
            Some (groupId f) = currentPageId s \<and> truthy (lookup (errors s) (field_id f)))
          \<and> getNextPage (form s) (currentPageId s) = pid)"
proof -
  have ge: "- 1 \<le> getPageIndex (form s) (currentPageId s)"
    by (rule getPageIndex_ge)
  have target: "0 \<le> newPageIndex s pid \<Longrightarrow> truthy_str pid
                \<Longrightarrow> getPageIdAt (form s) (newPageIndex s pid) = pid"
    by (cases pid) (simp_all add: newPageIndex_def getPageIdAt_getPageIndex)
  have nonempty: "getPageIndex (form s) (currentPageId s) < newPageIndex s pid
                  \<Longrightarrow> getNextPage (form s) (currentPageId s) = Some p \<Longrightarrow> pid = Some p
                  \<Longrightarrow> p \<noteq> []"
    by (auto simp: newPageIndex_def getNextPage_def Let_def split: if_splits)
  show ?thesis
    unfolding currentPageHasErrors_iff [symmetric]
    using ge target nonempty
    by (cases pid) (auto simp: onGotoPage_def Let_def)
qed

theorem onGotoPage_cases_witness:
  "fst (onGotoPage sampleLoaded (Some ''B'') NoTrigger) = sampleLoaded\<lparr>showErrors := True\<rparr>
   \<and> fst (onGotoPage (onSetValue sampleExt sampleLoaded ''name'' (JStr ''x'')) (Some ''B'') NoTrigger)
     = (onSetValue sampleExt sampleLoaded ''name'' (JStr ''x''))
         \<lparr>showErrors := False, currentPageId := Some ''B''\<rparr>
   \<and> fst (onGotoPage (onSetValue sampleExt sampleLoaded ''name'' (JStr ''x'')) (Some ''C'') NoTrigger)
     = onSetValue sampleExt sampleLoaded ''name'' (JStr ''x'')
   \<and> fst (onGotoPage (sampleLoaded\<lparr>currentPageId := Some ''C''\<rparr>) (Some ''A'') NoTrigger)
     = sampleLoaded\<lparr>currentPageId := Some ''A'', showErrors := False\<rparr>
   \<and> fst (onGotoPage sampleLoaded (Some ''A'') NoTrigger) = sampleLoaded
   \<and> fst (onGotoPage sampleLoaded (Some ''Z'') NoTrigger) = sampleLoaded"
proof -
  let ?a = sampleLoaded
  let ?b = "onSetValue sampleExt sampleLoaded ''name'' (JStr ''x'')"
  let ?c = "sampleLoaded\<lparr>currentPageId := Some ''C''\<rparr>"
  note ev = stateFields_def sample_fields sampleField_def lookup_def newPageIndex_def
  have ha: "getPageIndex (form ?a) (currentPageId ?a) < newPageIndex ?a (Some ''B'')"
    "\<exists>f \<in> set (stateFields ?a).
       Some (groupId f) = currentPageId ?a \<and> truthy (lookup (errors ?a) (field_id f))"
    by (simp_all add: sampleLoaded_eq ev sample_pages)
  have hb: "getPageIndex (form ?b) (currentPageId ?b) < newPageIndex ?b (Some ''B'')"
    "getPageIndex (form ?b) (currentPageId ?b) < newPageIndex ?b (Some ''C'')"
    "\<not> (\<exists>f \<in> set (stateFields ?b).
       Some (groupId f) = currentPageId ?b \<and> truthy (lookup (errors ?b) (field_id f)))"
    "getNextPage (form ?b) (currentPageId ?b) = Some ''B''"
    "\<not> (\<exists>q. getNextPage (form ?b) (currentPageId ?b) = Some q \<and> Some ''C'' = Some q)"
    by (simp_all add: sampleFilled_eq ev sample_pages)
  have hc: "0 \<le> newPageIndex ?c (Some ''A'')"
    "newPageIndex ?c (Some ''A'') < getPageIndex (form ?c) (currentPageId ?c)"
    "getPageIdAt (form ?c) (newPageIndex ?c (Some ''A'')) = Some ''A''"
    by (simp_all add: sampleLoaded_eq ev sample_pages)
  have hd: "newPageIndex ?a (Some ''A'') = getPageIndex (form ?a) (currentPageId ?a)"
    "newPageIndex ?a (Some ''Z'') < 0"
    by (simp_all add: sampleLoaded_eq ev sample_pages)
  have c1: "fst (onGotoPage ?a (Some ''B'') NoTrigger) = ?a\<lparr>showErrors := True\<rparr>"
    using onGotoPage_cases [of ?a "Some ''B''" NoTrigger] ha by blast
  have c2: "fst (onGotoPage ?b (Some ''B'') NoTrigger)
            = ?b\<lparr>showErrors := False, currentPageId := Some ''B''\<rparr>"
    using onGotoPage_cases [of ?b "Some ''B''" NoTrigger "''B''"] hb by blast
  have c3: "fst (onGotoPage ?b (Some ''C'') NoTrigger) = ?b"
    using onGotoPage_cases [of ?b "Some ''C''" NoTrigger] hb by blast
  have c4: "fst (onGotoPage ?c (Some ''A'') NoTrigger)
            = ?c\<lparr>showErrors := False, currentPageId := Some ''A''\<rparr>"
    using onGotoPage_cases [of ?c "Some ''A''" NoTrigger] hc by simp
  have c5: "fst (onGotoPage ?a (Some ''A'') NoTrigger) = ?a"
    using onGotoPage_cases [of ?a "Some ''A''" NoTrigger] hd by blast
  have c6: "fst (onGotoPage ?a (Some ''Z'') NoTrigger) = ?a"
    using onGotoPage_cases [of ?a "Some ''Z''" NoTrigger] hd by blast
  show ?thesis using c1 c2 c3 c4 c5 c6 by simp
qed



section \<open>Loading a form\<close>

subsection \<open>Dictionaries built by folding\<close>

lemma foldl_assign_keys:
  "set (keys (foldl (\<lambda>prev f. assign prev (key f) (g f)) d fs)) = set (keys d) \<union> key ` set fs"
  by (induction fs arbitrary: d) (auto simp: keys_assign)

lemma foldl_assign_lookup_other:
  "k \<notin> key ` set fs \<Longrightarrow>
   lookup (foldl (\<lambda>prev f. assign prev (key f) (g f)) d fs) k = lookup d k"
  by (induction fs arbitrary: d) (auto simp: lookup_assign)

lemma foldl_assign_lookup:
  "distinct (map key fs) \<Longrightarrow> f \<in> set fs \<Longrightarrow>
   lookup (foldl (\<lambda>prev f. assign prev (key f) (g f)) d fs) (key f) = g f"
proof (induction fs arbitrary: d)
  case Nil
  then show ?case by simp
next
  case (Cons x xs)
  show ?case
  proof (cases "f = x")
    case True
    with Cons.prems have "key x \<notin> key ` set xs" by simp
    then show ?thesis
      using True by (simp add: foldl_assign_lookup_other lookup_assign)
  next
    case False
    with Cons show ?thesis by simp
  qed
qed

lemma keys_Nil: "keys [] = []"
  by (simp add: keys_def)

lemma reduceFields_keys: "set (keys (reduceFields frm fn)) = set (map field_id (form_fields frm))"
  by (simp add: reduceFields_def foldl_assign_keys keys_Nil)

lemma foldl_merge_keys:
  "set ks \<subseteq> set (keys d) \<Longrightarrow>
   keys (foldl (\<lambda>prev key. if c key then assign prev key (g key) else prev) d ks) = keys d"
  by (induction ks arbitrary: d) (auto simp: keys_assign_mem)

lemma foldl_merge_lookup:
  "lookup (foldl (\<lambda>prev key. if c key then assign prev key (g key) else prev) d ks) k
   = (if k \<in> set ks \<and> c k then g k else lookup d k)"
  by (induction ks arbitrary: d) (auto simp: lookup_assign)

lemma mergeProgress_keys: "keys (mergeProgress ext pr d) = keys d"
  unfolding mergeProgress_def by (rule foldl_merge_keys) simp

lemma mergeProgress_lookup:
  "lookup (mergeProgress ext pr d) k
   = (if k \<in> set (keys d) \<and> getProp ext (progress_value pr) k \<noteq> JUndefined
         \<and> lookup d k \<noteq> JUndefined
      then getProp ext (progress_value pr) k else lookup d k)"
  unfolding mergeProgress_def by (simp add: foldl_merge_lookup)

subsection \<open>The members of the loaded state\<close>

lemma onSetForm_form: "form (onSetForm ext ls s frm) = Some frm"
  by (simp add: onSetForm_def Let_def)

lemma onSetForm_defaultValue:
  "defaultValue (onSetForm ext ls s frm) = getDefaultFormValue (clock ext) frm (language s)"
  by (simp add: onSetForm_def Let_def)

lemma onSetForm_value:
  "value (onSetForm ext ls s frm) =
     (case loadProgress ext ls frm of
        None \<Rightarrow> getDefaultFormValue (clock ext) frm (language s)
      | Some pr \<Rightarrow> mergeProgress ext pr (getDefaultFormValue (clock ext) frm (language s)))"
  by (simp add: onSetForm_def Let_def)

lemma onSetForm_errors:
  "errors (onSetForm ext ls s frm) =
     foldl (\<lambda>prev f. assign prev (field_id f)
                       (validate ext (lookup (value (onSetForm ext ls s frm)) (field_id f)) f
                          (language s)))
           [] (form_fields frm)"
  by (simp add: onSetForm_def Let_def)

lemma onSetForm_keys:
  "set (keys (value (onSetForm ext ls s frm))) = set (map field_id (form_fields frm))"
  "set (keys (defaultValue (onSetForm ext ls s frm))) = set (map field_id (form_fields frm))"
  "set (keys (emptyValue (onSetForm ext ls s frm))) = set (map field_id (form_fields frm))"
  "set (keys (inputValue (onSetForm ext ls s frm))) = set (map field_id (form_fields frm))"
  "set (keys (errors (onSetForm ext ls s frm))) = set (map field_id (form_fields frm))"
proof -
  show "set (keys (value (onSetForm ext ls s frm))) = set (map field_id (form_fields frm))"
    by (simp add: onSetForm_value getDefaultFormValue_def reduceFields_keys mergeProgress_keys
        split: option.splits)
  then show "set (keys (inputValue (onSetForm ext ls s frm))) = set (map field_id (form_fields frm))"
    by (simp add: onSetForm_def Let_def)
  show "set (keys (defaultValue (onSetForm ext ls s frm))) = set (map field_id (form_fields frm))"
    by (simp add: onSetForm_defaultValue getDefaultFormValue_def reduceFields_keys)
  show "set (keys (emptyValue (onSetForm ext ls s frm))) = set (map field_id (form_fields frm))"
    by (simp add: onSetForm_def Let_def getEmptyFormValue_def reduceFields_keys)
  show "set (keys (errors (onSetForm ext ls s frm))) = set (map field_id (form_fields frm))"
    unfolding onSetForm_errors by (simp add: foldl_assign_keys keys_Nil)
qed

subsection \<open>More on the sample inputs\<close>

lemma storage_keys_differ: "pageKey i \<noteq> valueKey i"
  by (simp add: pageKey_def valueKey_def)

lemma sample_groups:
  "formGroups (Some sampleForm) =
     [\<lparr>group_id = ''A'', group_name = ''Page A''\<rparr>,
      \<lparr>group_id = ''B'', group_name = ''Page B''\<rparr>,
      \<lparr>group_id = ''C'', group_name = ''Page C''\<rparr>]"
  "form_id sampleForm = ''f''"
  by (simp_all add: formGroups_def sampleForm_def)

lemma sample_ext:
  "validate sampleExt = sampleValidate"
  "JSON_parse sampleExt = sampleParse"
  "JSON_stringify sampleExt = sampleStringify"
  "clock sampleExt = sampleClock"
  "prototypeProp sampleExt = samplePrototype"
  by (simp_all add: sampleExt_def)

lemma sample_default:
  "getDefaultFormValue (clock sampleExt) sampleForm l = [(''name'', JStr []), (''age'', JNull)]"
  by (simp add: getDefaultFormValue_def reduceFields_def sample_fields sampleField_def
      getDefaultValue_def getEmptyFieldValue_def)

lemma sample_draft_progress:
  "pg \<noteq> [] \<Longrightarrow>
   loadProgress sampleExt (sampleDraft pg) sampleForm
   = Some \<lparr>progress_page = pg,
           progress_value = JObj [(''name'', JStr ''x''), (''age'', JNull)]\<rparr>"
  by (simp add: loadProgress_def sampleDraft_def sample_groups storage_keys_differ
      sample_ext sampleParse_def)

lemma sample_draft_value:
  "pg \<noteq> [] \<Longrightarrow>
   value (onSetForm sampleExt (sampleDraft pg) sampleInitial sampleForm)
   = [(''name'', JStr ''x''), (''age'', JNull)]"
  by (simp add: onSetForm_value sample_draft_progress sample_default mergeProgress_def
      keys_def lookup_def)

subsection \<open>Key sets\<close>

lemma loadedKeySets_onSetValue:
  assumes "loadedKeySets s frm"
  shows "loadedKeySets (onSetValue ext s fid v) frm"
proof (cases "find (\<lambda>f. field_id f = fid) (stateFields s)")
  case None
  with assms show ?thesis by (simp add: onSetValue_def)
next
  case (Some field)
  then have "fid \<in> set (map field_id (stateFields s))"
    by (rule find_field_Some)
  with assms have "fid \<in> set (map field_id (form_fields frm))"
    by (simp add: loadedKeySets_def stateFields_def)
  with assms Some show ?thesis
    by (auto simp: loadedKeySets_def onSetValue_def Let_def keys_assign)
qed

lemma loadedKeySets_onSetInputValue:
  assumes "loadedKeySets s frm"
  shows "loadedKeySets (onSetInputValue s fid v) frm"
proof (cases "find (\<lambda>f. field_id f = fid) (stateFields s)")
  case None
  with assms show ?thesis by (simp add: onSetInputValue_def)
next
  case (Some field)
  then have "fid \<in> set (map field_id (stateFields s))"
    by (rule find_field_Some)
  with assms have "fid \<in> set (map field_id (form_fields frm))"
    by (simp add: loadedKeySets_def stateFields_def)
  with assms Some show ?thesis
    by (auto simp: loadedKeySets_def onSetInputValue_def keys_assign)
qed

lemma loadedKeySets_frame:
  "form s' = form s \<Longrightarrow> value s' = value s \<Longrightarrow> defaultValue s' = defaultValue s
   \<Longrightarrow> emptyValue s' = emptyValue s \<Longrightarrow> inputValue s' = inputValue s
   \<Longrightarrow> errors s' = errors s \<Longrightarrow> loadedKeySets s frm \<Longrightarrow> loadedKeySets s' frm"
  by (simp add: loadedKeySets_def)

text \<open>
  Claim C7. Once a form is loaded by \<open>onSetForm\<close>, the dictionaries \<open>value\<close>,
  \<open>defaultValue\<close>, \<open>emptyValue\<close>, \<open>inputValue\<close> and \<open>errors\<close> each have exactly the field ids
  of the loaded form as their keys, and \<open>onSetValue\<close>, \<open>onSetInputValue\<close>, \<open>onSetFocussed\<close>,
  \<open>onSubmit\<close>, \<open>onPreviousPage\<close> and \<open>onGotoPage\<close> keep it so.
\<close>

theorem key_sets_invariant:
  "loadedKeySets (onSetForm ext ls s0 frm) frm
   \<and> (loadedKeySets s frm \<longrightarrow>
        loadedKeySets (onSetValue ext s fid v) frm
        \<and> loadedKeySets (onSetInputValue s fid v) frm
        \<and> loadedKeySets (onSetFocussed s fid b) frm
        \<and> loadedKeySets (result_state (fst (onSubmit s))) frm
        \<and> loadedKeySets (fst (onPreviousPage s)) frm
        \<and> loadedKeySets (fst (onGotoPage s pid trg)) frm)"
proof (intro conjI impI)
  show "loadedKeySets (onSetForm ext ls s0 frm) frm"
    by (simp add: loadedKeySets_def onSetForm_form onSetForm_keys)
next
  assume inv: "loadedKeySets s frm"
  show "loadedKeySets (onSetValue ext s fid v) frm"
    using inv by (rule loadedKeySets_onSetValue)
  show "loadedKeySets (onSetInputValue s fid v) frm"
    using inv by (rule loadedKeySets_onSetInputValue)
  show "loadedKeySets (onSetFocussed s fid b) frm"
    using inv by (simp add: onSetFocussed_def loadedKeySets_def)
  show "loadedKeySets (result_state (fst (onSubmit s))) frm"
    using inv by (simp add: onSubmit_def Let_def loadedKeySets_def)
  show "loadedKeySets (fst (onPreviousPage s)) frm"
    using inv by (simp add: onPreviousPage_def Let_def loadedKeySets_def)
  show "loadedKeySets (fst (onGotoPage s pid trg)) frm"
    using inv by (simp add: onGotoPage_def Let_def loadedKeySets_def)
qed

theorem key_sets_invariant_witness:
  "loadedKeySets sampleLoaded sampleForm
   \<and> loadedKeySets (onSetValue sampleExt sampleLoaded ''name'' (JStr ''x'')) sampleForm
   \<and> set (keys (value (onSetValue sampleExt sampleLoaded ''name'' (JStr ''x''))))
       = {''name'', ''age''}"
proof -
  have h: "loadedKeySets sampleLoaded sampleForm"
    by (simp add: loadedKeySets_def sampleLoaded_eq sample_fields sampleField_def keys_def)
  have k: "set (keys (value (onSetValue sampleExt sampleLoaded ''name'' (JStr ''x''))))
           = {''name'', ''age''}"
    by (simp add: sampleFilled_eq keys_def)
  show ?thesis
    using key_sets_invariant [of sampleExt emptyStorage sampleInitial sampleForm sampleLoaded
        "''name''" "JStr ''x''"] h k
    by simp
qed

subsection \<open>The page selected on load\<close>

lemma selected_page_eq:
  "currentPageId (onSetForm ext ls s frm) =
     (if list_ex (\<lambda>key. truthy (lookup (errors (onSetForm ext ls s frm)) key))
                 (keys (errors (onSetForm ext ls s frm)))
      then getPageIdAt (Some frm) 0
      else (case loadProgress ext ls frm of
              None \<Rightarrow> getPageIdAt (Some frm) 0
            | Some pr \<Rightarrow>
                if list_ex (\<lambda>g. group_id g = progress_page pr) (formGroups (Some frm))
                then Some (progress_page pr) else getPageIdAt (Some frm) 0))"
  by (simp add: onSetForm_def Let_def)

lemma onSetForm_hasErrors:
  assumes "distinct (map field_id (form_fields frm))"
  shows "list_ex (\<lambda>key. truthy (lookup (errors (onSetForm ext ls s frm)) key))
                 (keys (errors (onSetForm ext ls s frm)))
         \<longleftrightarrow> (\<exists>f \<in> set (form_fields frm).
                truthy (validate ext (lookup (value (onSetForm ext ls s frm)) (field_id f)) f
                          (language s)))"
proof -
  let ?g = "\<lambda>f. validate ext (lookup (value (onSetForm ext ls s frm)) (field_id f)) f (language s)"
  have look: "lookup (errors (onSetForm ext ls s frm)) (field_id f) = ?g f"
    if "f \<in> set (form_fields frm)" for f
    unfolding onSetForm_errors using assms that by (rule foldl_assign_lookup)
  have "list_ex (\<lambda>key. truthy (lookup (errors (onSetForm ext ls s frm)) key))
                (keys (errors (onSetForm ext ls s frm)))
        \<longleftrightarrow> (\<exists>k \<in> set (map field_id (form_fields frm)).
               truthy (lookup (errors (onSetForm ext ls s frm)) k))"
    by (simp only: list_ex_iff onSetForm_keys)
  also have "\<dots> \<longleftrightarrow> (\<exists>f \<in> set (form_fields frm). truthy (?g f))"
    using look by auto
  finally show ?thesis .
qed

text \<open>
  Claim C4. The page \<open>onSetForm\<close> selects, for a form with distinct field ids. If a field
  fails validation against the merged value, it is the first page, whatever the draft
  says. Otherwise the page of the persisted draft is taken when it is the id of a group
  of the form, and the first page when it is not; without a draft it is the first page.
\<close>

theorem onSetForm_currentPageId:
  assumes "distinct (map field_id (form_fields frm))"
  shows
  "((\<exists>f \<in> set (form_fields frm).
       truthy (validate ext (lookup (value (onSetForm ext ls s frm)) (field_id f)) f (language s)))
     \<longrightarrow> currentPageId (onSetForm ext ls s frm) = getPageIdAt (Some frm) 0)
   \<and> (\<not> (\<exists>f \<in> set (form_fields frm).
       truthy (validate ext (lookup (value (onSetForm ext ls s frm)) (field_id f)) f (language s)))
       \<and> loadProgress ext ls frm = Some pr
       \<and> progress_page pr \<in> group_id ` set (formGroups (Some frm))
     \<longrightarrow> currentPageId (onSetForm ext ls s frm) = Some (progress_page pr))
   \<and> (\<not> (\<exists>f \<in> set (form_fields frm).
       truthy (validate ext (lookup (value (onSetForm ext ls s frm)) (field_id f)) f (language s)))
       \<and> loadProgress ext ls frm = Some pr
       \<and> progress_page pr \<notin> group_id ` set (formGroups (Some frm))
     \<longrightarrow> currentPageId (onSetForm ext ls s frm) = getPageIdAt (Some frm) 0)
   \<and> (loadProgress ext ls frm = None
     \<longrightarrow> currentPageId (onSetForm ext ls s frm) = getPageIdAt (Some frm) 0)"
proof -
  have page: "list_ex (\<lambda>g. group_id g = p) gs \<longleftrightarrow> p \<in> group_id ` set gs"
    for p and gs :: "Group list"
    by (auto simp: list_ex_iff)
  show ?thesis
    unfolding onSetForm_hasErrors [OF assms, symmetric]
    by (subst (1 2 3 4) selected_page_eq) (simp add: page)
qed

theorem onSetForm_currentPageId_witness:
  "distinct (map field_id (form_fields sampleForm))
   \<and> currentPageId (onSetForm sampleExt emptyStorage sampleInitial sampleForm) = Some ''A''
   \<and> currentPageId (onSetForm sampleExt (sampleDraft ''B'') sampleInitial sampleForm) = Some ''B''
   \<and> currentPageId (onSetForm sampleExt (sampleDraft ''Z'') sampleInitial sampleForm) = Some ''A''"
proof -
  let ?failing = "\<lambda>ls. \<exists>f \<in> set (form_fields sampleForm).
      truthy (validate sampleExt
                (lookup (value (onSetForm sampleExt ls sampleInitial sampleForm)) (field_id f)) f
                (language sampleInitial))"
  note ev = sample_fields sampleField_def sample_ext sampleValidate_def sampleRequired_def
    noValidations_def lookup_def
  have d: "distinct (map field_id (form_fields sampleForm))"
    by (simp add: sample_fields sampleField_def)
  have v0: "value (onSetForm sampleExt emptyStorage sampleInitial sampleForm)
            = [(''name'', JStr []), (''age'', JNull)]"
    by (simp add: sampleLoaded_def [symmetric] sampleLoaded_eq)
  have f0: "?failing emptyStorage"
    by (simp add: v0 ev)
  have fB: "\<not> ?failing (sampleDraft ''B'')" and fZ: "\<not> ?failing (sampleDraft ''Z'')"
    by (simp_all add: sample_draft_value ev)
  have pB: "loadProgress sampleExt (sampleDraft ''B'') sampleForm
            = Some \<lparr>progress_page = ''B'',
                    progress_value = JObj [(''name'', JStr ''x''), (''age'', JNull)]\<rparr>"
    and pZ: "loadProgress sampleExt (sampleDraft ''Z'') sampleForm
            = Some \<lparr>progress_page = ''Z'',
                    progress_value = JObj [(''name'', JStr ''x''), (''age'', JNull)]\<rparr>"
    by (simp_all add: sample_draft_progress)
  have gB: "''B'' \<in> group_id ` set (formGroups (Some sampleForm))"
    and gZ: "''Z'' \<notin> group_id ` set (formGroups (Some sampleForm))"
    by (simp_all add: sample_groups)
  have first: "getPageIdAt (Some sampleForm) 0 = Some ''A''"
    by (rule sample_pages)
  have c0: "currentPageId (onSetForm sampleExt emptyStorage sampleInitial sampleForm) = Some ''A''"
    using onSetForm_currentPageId [OF d, of sampleExt emptyStorage sampleInitial] f0 first
    by simp
  have cB: "currentPageId (onSetForm sampleExt (sampleDraft ''B'') sampleInitial sampleForm)
            = Some ''B''"
    using onSetForm_currentPageId [OF d, of sampleExt "sampleDraft ''B''" sampleInitial
        "\<lparr>progress_page = ''B'',
          progress_value = JObj [(''name'', JStr ''x''), (''age'', JNull)]\<rparr>"] fB pB gB
    by simp
  have cZ: "currentPageId (onSetForm sampleExt (sampleDraft ''Z'') sampleInitial sampleForm)
            = Some ''A''"
    using onSetForm_currentPageId [OF d, of sampleExt "sampleDraft ''Z''" sampleInitial
        "\<lparr>progress_page = ''Z'',
          progress_value = JObj [(''name'', JStr ''x''), (''age'', JNull)]\<rparr>"] fZ pZ gZ first
    by simp
  show ?thesis using d c0 cB cZ by simp
qed



section \<open>The draft round trip\<close>

text \<open>
  The merged value of \<open>onSetForm\<close>: with a draft, a field id of the form takes what the
  property read on the draft's value finds for it when that is defined (and the default
  is defined), and its default otherwise; keys of the draft that are no field ids of the
  form do not appear. A draft
  saved while there was no current page is never read back: \<open>saveProgress\<close> stores the empty
  string as its page, and \<open>loadProgress\<close> takes a falsy page entry for a missing draft.
\<close>

lemma onSetForm_value_lookup:
  "lookup (value (onSetForm ext ls s frm)) k =
     (case loadProgress ext ls frm of
        None \<Rightarrow> lookup (getDefaultFormValue (clock ext) frm (language s)) k
      | Some pr \<Rightarrow>
          if k \<in> set (map field_id (form_fields frm))
             \<and> getProp ext (progress_value pr) k \<noteq> JUndefined
             \<and> lookup (getDefaultFormValue (clock ext) frm (language s)) k \<noteq> JUndefined
          then getProp ext (progress_value pr) k
          else lookup (getDefaultFormValue (clock ext) frm (language s)) k)"
  by (simp add: onSetForm_value mergeProgress_lookup getDefaultFormValue_def reduceFields_keys
      split: option.splits)

lemma saveProgress_entries:
  assumes "form s = Some frm" and "form_id frm \<noteq> []"
  shows "saveProgress ext ls s (pageKey (form_id frm))
         = Some (if truthy_str (currentPageId s) then the (currentPageId s) else [])"
    and "saveProgress ext ls s (valueKey (form_id frm))
         = Some (JSON_stringify ext (JObj (value s)))"
  using assms by (simp_all add: saveProgress_def storage_keys_differ)

lemma draft_saved_without_page_not_loaded:
  assumes "form s = Some frm" and "form_id frm \<noteq> []" and "\<not> truthy_str (currentPageId s)"
  shows "loadProgress ext (saveProgress ext ls s) frm = None"
  using assms by (simp add: loadProgress_def saveProgress_entries)

lemma sampleFlatLoaded_eq:
  "sampleFlatLoaded =
     \<lparr>htmlId = ''form-1'', form = Some sampleFlatForm, language = ''en-GB'',
      currentPageId = None,
      value = [(''name'', JStr [])],
      defaultValue = [(''name'', JStr [])],
      emptyValue = [(''name'', JStr [])],
      inputValue = [(''name'', JStr [])],
      errors = [(''name'', JUndefined)],
      showErrors = False, focussed = None, loading = False, loadError = JNull,
      defaultPageTitle = ''Form''\<rparr>"
  by (simp add: sampleFlatLoaded_def onSetForm_def sampleFlatForm_def sampleInitial_def
      sampleExt_def emptyStorage_def loadProgress_def getPageIdAt_def formGroups_def
      getDefaultFormValue_def getEmptyFormValue_def reduceFields_def getDefaultValue_def
      getEmptyFieldValue_def sampleField_def sampleValidate_def lookup_def keys_def Let_def)

lemma sampleFlatFilled_eq:
  "sampleFlatFilled = sampleFlatLoaded\<lparr>value := [(''name'', JStr ''x'')]\<rparr>"
  by (simp add: sampleFlatFilled_def sampleFlatLoaded_eq onSetValue_def stateFields_def
      sampleFlatForm_def sampleField_def sample_ext sampleValidate_def Let_def)

text \<open>
  Claim C3. The round trip of the draft breaks for a form without groups. In the flat
  sample form the name is set to \<open>x\<close> and the draft is saved: the page entry is the empty
  string and the value entry is the JSON text of the value, which parses back to it. Yet
  \<open>loadProgress\<close> returns no draft, and loading the form again yields the default, the empty
  string, for \<open>name\<close> instead of the committed \<open>x\<close>.
\<close>

theorem draft_of_flat_form_not_restored:
  "lookup (value sampleFlatFilled) ''name'' = JStr ''x''
   \<and> saveProgress sampleExt emptyStorage sampleFlatFilled (pageKey ''g'') = Some []
   \<and> saveProgress sampleExt emptyStorage sampleFlatFilled (valueKey ''g'') = Some ''{name:x}''
   \<and> JSON_parse sampleExt ''{name:x}'' = Some (JObj (value sampleFlatFilled))
   \<and> loadProgress sampleExt (saveProgress sampleExt emptyStorage sampleFlatFilled) sampleFlatForm
       = None
   \<and> lookup (value (onSetForm sampleExt (saveProgress sampleExt emptyStorage sampleFlatFilled)
                       sampleInitial sampleFlatForm)) ''name''
       = JStr []"
proof -
  have frm: "form sampleFlatFilled = Some sampleFlatForm" "form_id sampleFlatForm = ''g''"
    "currentPageId sampleFlatFilled = None"
    "value sampleFlatFilled = [(''name'', JStr ''x'')]"
    by (simp_all add: sampleFlatFilled_eq sampleFlatLoaded_eq sampleFlatForm_def)
  have nonempty: "form_id sampleFlatForm \<noteq> []"
    by (simp add: frm)
  have pg: "saveProgress sampleExt emptyStorage sampleFlatFilled (pageKey ''g'') = Some []"
    using saveProgress_entries(1) [OF frm(1) nonempty, of sampleExt emptyStorage]
    by (simp add: frm)
  have vl: "saveProgress sampleExt emptyStorage sampleFlatFilled (valueKey ''g'')
            = Some ''{name:x}''"
    using saveProgress_entries(2) [OF frm(1) nonempty, of sampleExt emptyStorage]
    by (simp add: frm sample_ext sampleStringify_def)
  have parse: "JSON_parse sampleExt ''{name:x}'' = Some (JObj (value sampleFlatFilled))"
    by (simp add: frm sample_ext sampleParse_def)
  have none: "loadProgress sampleExt (saveProgress sampleExt emptyStorage sampleFlatFilled)
                sampleFlatForm = None"
    by (rule draft_saved_without_page_not_loaded) (simp_all add: frm)
  have dflt: "lookup (getDefaultFormValue (clock sampleExt) sampleFlatForm l) ''name'' = JStr []"
    for l
    by (simp add: getDefaultFormValue_def reduceFields_def sampleFlatForm_def sampleField_def
        getDefaultValue_def getEmptyFieldValue_def lookup_def)
  have "lookup (value (onSetForm sampleExt (saveProgress sampleExt emptyStorage sampleFlatFilled)
                         sampleInitial sampleFlatForm)) ''name'' = JStr []"
    by (simp add: onSetForm_value_lookup none dflt)
  with pg vl parse none show ?thesis
    by (simp add: frm lookup_def)
qed

text \<open>
  For comparison, the round trip on the form with pages: the draft saved after the name
  was set to \<open>x\<close> carries page \<open>A\<close>, and loading the form again restores \<open>x\<close>.
\<close>

lemma draft_of_paged_form_restored:
  "saveProgress sampleExt emptyStorage (onSetValue sampleExt sampleLoaded ''name'' (JStr ''x''))
       (pageKey ''f'') = Some ''A''
   \<and> lookup (value (onSetForm sampleExt
                 (saveProgress sampleExt emptyStorage
                    (onSetValue sampleExt sampleLoaded ''name'' (JStr ''x'')))
                 sampleInitial sampleForm)) ''name''
       = JStr ''x''"
proof -
  let ?s = "onSetValue sampleExt sampleLoaded ''name'' (JStr ''x'')"
  have frm: "form ?s = Some sampleForm" "form_id sampleForm \<noteq> []"
    "currentPageId ?s = Some ''A''"
    "value ?s = [(''name'', JStr ''x''), (''age'', JNull)]"
    by (simp_all add: sampleFilled_eq sample_groups)
  have pg: "saveProgress sampleExt emptyStorage ?s (pageKey ''f'') = Some ''A''"
    using saveProgress_entries(1) [OF frm(1) frm(2), of sampleExt emptyStorage]
    by (simp add: frm sample_groups)
  have vl: "saveProgress sampleExt emptyStorage ?s (valueKey ''f'') = Some ''{name:x,age:null}''"
    using saveProgress_entries(2) [OF frm(1) frm(2), of sampleExt emptyStorage]
    by (simp add: frm sample_groups sample_ext sampleStringify_def)
  have "loadProgress sampleExt (saveProgress sampleExt emptyStorage ?s) sampleForm
        = Some \<lparr>progress_page = ''A'',
                progress_value = JObj [(''name'', JStr ''x''), (''age'', JNull)]\<rparr>"
    using pg vl by (simp add: loadProgress_def sample_groups sample_ext sampleParse_def)
  then have "lookup (value (onSetForm sampleExt (saveProgress sampleExt emptyStorage ?s)
                             sampleInitial sampleForm)) ''name'' = JStr ''x''"
    by (subst onSetForm_value_lookup)
      (simp add: sample_default sample_fields sampleField_def lookup_def)
  with pg show ?thesis by simp
qed

text \<open>
  A property read on the draft also finds what the prototypes hold: in the sample
  runtime the key \<open>constructor\<close>, which is no member of the stored object, yields a
  function, while any other missing key yields \<open>undefined\<close>.
\<close>

lemma getProp_sample:
  "getProp sampleExt (JObj [(''name'', JStr ''x'')]) ''name'' = JStr ''x''"
  "getProp sampleExt (JObj [(''name'', JStr ''x'')]) ''constructor'' = JFunction ''Object''"
  "getProp sampleExt (JObj [(''name'', JStr ''x'')]) ''age'' = JUndefined"
  "getProp sampleExt JNull ''name'' = JUndefined"
  by (simp_all add: sample_ext samplePrototype_def)

section \<open>Loading from promises\<close>

text \<open>
  A fulfilment that is not the one of \<open>loadingPromise\<close> leaves the state as it is; the one
  of \<open>loadingPromise\<close> applies \<open>onSetForm\<close>. Either way the callback then sets
  \<open>loadingPromise\<close> to \<open>null\<close>, so that the next fulfilment, of whichever promise, is ignored.
\<close>

lemma stale_fulfilment_ignored:
  "loadingPromise st \<noteq> Some p \<Longrightarrow>
   store_state (setForm_fulfilled ext ls p frm st) = store_state st"
  by (auto simp: setForm_fulfilled_def)

lemma current_fulfilment_applied:
  "loadingPromise st = Some p \<Longrightarrow>
   store_state (setForm_fulfilled ext ls p frm st) = onSetForm ext ls (store_state st) frm"
  by (simp add: setForm_fulfilled_def)

lemma fulfilment_clears_loadingPromise:
  "loadingPromise (setForm_fulfilled ext ls p frm st) = None"
  by (simp add: setForm_fulfilled_def)

lemma fulfilment_after_fulfilment_ignored:
  "store_state (setForm_fulfilled ext ls q frm' (setForm_fulfilled ext ls p frm st))
   = store_state (setForm_fulfilled ext ls p frm st)"
  by (simp add: stale_fulfilment_ignored fulfilment_clears_loadingPromise)

lemma sampleTwoLoads_eq:
  "sampleTwoLoads =
     \<lparr>store_state = sampleInitial\<lparr>loading := True\<rparr>, loadingPromise = Some 1, issued = 2\<rparr>"
  "snd (setForm_promise sampleStore) = 0"
  "snd (setForm_promise (fst (setForm_promise sampleStore))) = 1"
  by (simp_all add: sampleTwoLoads_def setForm_promise_def sampleStore_def Let_def
      numeral_2_eq_2)

text \<open>
  Claim C2. Two loads are started with promises 0 and 1, so promise 1 is the most recent
  one. The fulfilment of the superseded promise 0 leaves the state unchanged. When the
  fulfilment of promise 1 arrives after it, it is not applied: the state still is the
  initial one with \<open>loading = true\<close>, and no form is loaded. Had promise 1 been fulfilled
  alone, its form would have been loaded.
\<close>

theorem latest_load_lost_after_stale_fulfilment:
  "loadingPromise sampleTwoLoads = Some 1
   \<and> store_state (setForm_fulfilled sampleExt emptyStorage 0 sampleFlatForm sampleTwoLoads)
       = store_state sampleTwoLoads
   \<and> store_state (setForm_fulfilled sampleExt emptyStorage 1 sampleForm
                    (setForm_fulfilled sampleExt emptyStorage 0 sampleFlatForm sampleTwoLoads))
       = sampleInitial\<lparr>loading := True\<rparr>
   \<and> store_state (setForm_fulfilled sampleExt emptyStorage 1 sampleForm sampleTwoLoads)
       = sampleLoaded"
proof -
  have lp: "loadingPromise sampleTwoLoads = Some 1"
    and st: "store_state sampleTwoLoads = sampleInitial\<lparr>loading := True\<rparr>"
    by (simp_all add: sampleTwoLoads_eq)
  have stale: "store_state (setForm_fulfilled sampleExt emptyStorage 0 sampleFlatForm sampleTwoLoads)
               = store_state sampleTwoLoads"
    by (rule stale_fulfilment_ignored) (simp add: lp)
  have lost: "store_state (setForm_fulfilled sampleExt emptyStorage 1 sampleForm
                 (setForm_fulfilled sampleExt emptyStorage 0 sampleFlatForm sampleTwoLoads))
              = sampleInitial\<lparr>loading := True\<rparr>"
    by (simp add: fulfilment_after_fulfilment_ignored stale st)
  have "onSetForm sampleExt emptyStorage (sampleInitial\<lparr>loading := True\<rparr>) sampleForm
        = onSetForm sampleExt emptyStorage sampleInitial sampleForm"
    by (simp add: onSetForm_def)
  then have alone: "store_state (setForm_fulfilled sampleExt emptyStorage 1 sampleForm sampleTwoLoads)
               = sampleLoaded"
    by (simp add: current_fulfilment_applied lp st sampleLoaded_def)
  show ?thesis using lp stale lost alone by simp
qed

end
